theory Spec2Isabelle
  imports Main "HOL-Library.Word"
begin

section \<open>POPE evaluation driver: \<open>internvl_chat/eval/pope/evaluate_pope.py\<close>\<close>

text \<open>
  A shallow embedding of the evaluation script. Python integers are \<open>int\<close>, strings are
  \<open>string\<close>, every \<open>raise\<close> and failed \<open>assert\<close> is the \<open>Inl\<close> branch of a sum
  (assertions are enabled, as they are unless the interpreter is told otherwise). The
  collaborators that are not part of the script (the JSON codec, the image pipeline, the
  chat model, the clock) are fields of a record of externals.
\<close>

subsection \<open>Exceptions\<close>

datatype py_error =
    AssertionError string
  | ZeroDivisionError
  | KeyError string
  | TypeError
  | IndexError
  | ValueError
  | FileNotFoundError string
  | OSError string
  | AttributeError
  | RuntimeError
  | JSONDecodeError
  | ExternalError string

text \<open>Sequencing of computations that may raise: the first exception wins.\<close>

definition bind_err :: "py_error + 'a \<Rightarrow> ('a \<Rightarrow> py_error + 'b) \<Rightarrow> py_error + 'b" where
  "bind_err m f = (case m of Inl e \<Rightarrow> Inl e | Inr x \<Rightarrow> f x)"

text \<open>A list comprehension whose body may raise: \<open>[f(x) for x in xs]\<close>.\<close>

fun mapM_err :: "('a \<Rightarrow> py_error + 'b) \<Rightarrow> 'a list \<Rightarrow> py_error + 'b list" where
  "mapM_err f [] = Inr []"
| "mapM_err f (x # xs) =
     bind_err (f x) (\<lambda>y. bind_err (mapM_err f xs) (\<lambda>ys. Inr (y # ys)))"

subsection \<open>Python built-ins used by the script\<close>

text \<open>\<open>range(a, b)\<close>: the integers from \<open>a\<close> up to, not including, \<open>b\<close>.\<close>

definition py_range :: "int \<Rightarrow> int \<Rightarrow> int list" where
  "py_range a b = [a..b - 1]"

text \<open>\<open>xs[:k]\<close>: a negative bound counts from the end, and the slice never raises.\<close>

definition slice_to :: "'a list \<Rightarrow> int \<Rightarrow> 'a list" where
  "slice_to xs k =
     (if k < 0 then take (nat (int (length xs) + k)) xs else take (nat k) xs)"

text \<open>\<open>xs[i]\<close>: a negative index counts from the end; out of range raises.\<close>

definition py_index :: "'a list \<Rightarrow> int \<Rightarrow> py_error + 'a" where
  "py_index xs i =
     (if 0 \<le> i \<and> i < int (length xs) then Inr (xs ! nat i)
      else if i < 0 \<and> 0 \<le> int (length xs) + i then Inr (xs ! nat (int (length xs) + i))
      else Inl IndexError)"

subsection \<open>The shard sampler (\<open>InferenceSampler\<close>)\<close>

text \<open>
  \<open>_get_local_indices\<close>, lines 73 to 81. \<open>//\<close> and \<open>%\<close> are floor division and its
  remainder, as \<open>div\<close> and \<open>mod\<close> on \<open>int\<close> are; a zero divisor raises.
\<close>

definition shard_sizes :: "int \<Rightarrow> int \<Rightarrow> int list" where
  "shard_sizes total_size world_size =
     (let shard_size = total_size div world_size;
          left = total_size mod world_size
      in map (\<lambda>r. shard_size + (if r < left then 1 else 0)) (py_range 0 world_size))"

definition get_local_indices :: "int \<Rightarrow> int \<Rightarrow> int \<Rightarrow> py_error + int list" where
  "get_local_indices total_size world_size rank =
     (if world_size = 0 then Inl ZeroDivisionError
      else
        let begin_ix = sum_list (slice_to (shard_sizes total_size world_size) rank);
            end_ix = min (sum_list (slice_to (shard_sizes total_size world_size) (rank + 1)))
                         total_size
        in Inr (py_range begin_ix end_ix))"

text \<open>
  The sampler object: \<open>__init__\<close> (lines 66 to 71) asserts \<open>size > 0\<close> before it asks
  the process group for rank and world size; \<open>__iter__\<close> yields the local indices and
  \<open>__len__\<close> counts them.
\<close>

record process_group =
  pg_rank :: int
  pg_world_size :: int

record sampler =
  s_size :: int
  s_rank :: int
  s_world_size :: int
  s_local_indices :: "int list"

definition InferenceSampler :: "process_group \<Rightarrow> int \<Rightarrow> py_error + sampler" where
  "InferenceSampler pg size_arg =
     (if \<not> size_arg > 0 then Inl (AssertionError [])
      else
        case get_local_indices size_arg (pg_world_size pg) (pg_rank pg) of
          Inl e \<Rightarrow> Inl e
        | Inr ixs \<Rightarrow>
            Inr \<lparr>s_size = size_arg, s_rank = pg_rank pg, s_world_size = pg_world_size pg,
                 s_local_indices = ixs\<rparr>)"

definition sampler_iter :: "sampler \<Rightarrow> int list" where
  "sampler_iter s = s_local_indices s"

definition sampler_len :: "sampler \<Rightarrow> int" where
  "sampler_len s = int (length (s_local_indices s))"

text \<open>The shards of all ranks of a job, in increasing rank order.\<close>

definition all_shards :: "int \<Rightarrow> int \<Rightarrow> (py_error + int list) list" where
  "all_shards total_size world_size =
     map (get_local_indices total_size world_size) (py_range 0 world_size)"

subsection \<open>JSON values as Python objects\<close>

text \<open>
  What \<open>json.loads\<close> returns: \<open>None\<close>, a bool, an int, a float (its 64 bits), a str, a
  list, or a dict with string keys (an association list in insertion order, keys unique).
\<close>

type_synonym py_float = "64 word"

datatype json =
    JNull
  | JBool bool
  | JInt int
  | JFloat py_float
  | JStr string
  | JList "json list"
  | JDict "(string \<times> json) list"

text \<open>\<open>x > 0\<close> on an IEEE double: the sign bit is clear, and the value is neither
  zero nor a NaN, that is, its bits lie between those of the least subnormal and of
  \<open>+inf\<close>.\<close>

definition float_gt_zero :: "py_float \<Rightarrow> bool" where
  "float_gt_zero x = (0 < x \<and> x \<le> 0x7FF0000000000000)"

text \<open>\<open>data[key]\<close> and \<open>data.get(key, default)\<close> with a string key.\<close>

fun py_getitem :: "json \<Rightarrow> string \<Rightarrow> py_error + json" where
  "py_getitem (JDict kvs) k = (case map_of kvs k of None \<Rightarrow> Inl (KeyError k) | Some v \<Rightarrow> Inr v)"
| "py_getitem _ k = Inl TypeError"

fun py_get :: "json \<Rightarrow> string \<Rightarrow> json \<Rightarrow> py_error + json" where
  "py_get (JDict kvs) k d = (case map_of kvs k of None \<Rightarrow> Inr d | Some v \<Rightarrow> Inr v)"
| "py_get _ k d = Inl AttributeError"

text \<open>Iterating a deserialised object, as \<open>itertools.chain.from_iterable\<close> does: a
  list yields its items, a dict its keys, a str its characters; the rest raise.\<close>

fun py_iter :: "json \<Rightarrow> py_error + json list" where
  "py_iter (JList xs) = Inr xs"
| "py_iter (JDict kvs) = Inr (map (\<lambda>kv. JStr (fst kv)) kvs)"
| "py_iter (JStr s) = Inr (map (\<lambda>c. JStr [c]) s)"
| "py_iter _ = Inl TypeError"

definition chain_from_iterable :: "json list \<Rightarrow> py_error + json list" where
  "chain_from_iterable js = bind_err (mapM_err py_iter js) (\<lambda>xss. Inr (concat xss))"

subsection \<open>Strings, lines and paths\<close>

definition newline :: char where
  "newline = CHR 0x0A"

text \<open>\<open>str.strip()\<close> on ASCII text: blanks, tab, newline, vertical tab, form feed,
  carriage return and the four separators \<open>0x1C\<close> to \<open>0x1F\<close> are removed at both ends.\<close>

definition is_space :: "char \<Rightarrow> bool" where
  "is_space c = (c \<in> set [CHR '' '', CHR 0x09, CHR 0x0A, CHR 0x0B, CHR 0x0C, CHR 0x0D,
                            CHR 0x1C, CHR 0x1D, CHR 0x1E, CHR 0x1F])"

definition py_strip :: "string \<Rightarrow> string" where
  "py_strip s = rev (dropWhile is_space (rev (dropWhile is_space s)))"

text \<open>\<open>file.readlines()\<close> on the text of a file: every line keeps its terminator; a
  last line without terminator is a line when it is not empty.\<close>

fun readlines :: "string \<Rightarrow> string list" where
  "readlines [] = []"
| "readlines (c # cs) =
     (if c = newline then [c] # readlines cs
      else case readlines cs of [] \<Rightarrow> [[c]] | l # ls \<Rightarrow> (c # l) # ls)"

text \<open>\<open>str.split(sep)\<close> with a one-character separator.\<close>

fun split_on :: "char \<Rightarrow> string \<Rightarrow> string list" where
  "split_on sep [] = [[]]"
| "split_on sep (c # cs) =
     (if c = sep then [] # split_on sep cs
      else case split_on sep cs of [] \<Rightarrow> [[c]] | w # ws \<Rightarrow> (c # w) # ws)"

text \<open>\<open>os.path.join(a, b)\<close> on POSIX.\<close>

definition path_join :: "string \<Rightarrow> string \<Rightarrow> string" where
  "path_join a b =
     (if b \<noteq> [] \<and> hd b = CHR ''/'' then b
      else if a = [] \<or> last a = CHR ''/'' then a @ b
      else a @ ''/'' @ b)"

subsection \<open>Command line, dataset table, external collaborators\<close>

text \<open>The parsed command line (lines 174 to 184).\<close>

record args =
  a_checkpoint :: string
  a_datasets :: string
  a_batch_size :: int
  a_num_workers :: int
  a_num_beams :: int
  a_template :: string
  a_temperature :: py_float
  a_out_dir :: string
  a_seed :: int

text \<open>\<open>ds_collections\<close> (lines 16 to 24); \<open>metric\<close> is \<open>None\<close>.\<close>

record ds_config =
  dc_root :: string
  dc_question :: string
  dc_metric :: "string option"
  dc_max_new_tokens :: int
  dc_min_new_tokens :: int

definition ds_collections :: "string \<rightharpoonup> ds_config" where
  "ds_collections =
     [''pope'' \<mapsto> \<lparr>dc_root = ''data/pope/val2014'',
                    dc_question = ''data/pope/llava_pope_test.jsonl'',
                    dc_metric = None,
                    dc_max_new_tokens = 100,
                    dc_min_new_tokens = 1\<rparr>]"

definition ds_lookup :: "string \<Rightarrow> py_error + ds_config" where
  "ds_lookup ds_name =
     (case ds_collections ds_name of None \<Rightarrow> Inl (KeyError ds_name) | Some c \<Rightarrow> Inr c)"

text \<open>The \<open>generation_config\<close> dict of lines 123 to 130: its keys are fixed.\<close>

record generation_config =
  gc_num_beams :: int
  gc_max_new_tokens :: int
  gc_min_new_tokens :: int
  gc_length_penalty :: int
  gc_do_sample :: bool
  gc_temperature :: py_float

text \<open>
  What the script calls and does not define. \<open>'p\<close> is one transformed image; a tensor
  with a leading batch dimension is a list of them.
  \<^item> \<open>files\<close>: the text \<open>open(path)\<close> reads, when the file exists;
  \<^item> \<open>json_loads\<close>, \<open>json_dumps\<close>: the JSON codec;
  \<^item> \<open>load_image\<close>: \<open>Image.open(path).convert('RGB')\<close> through the transform built for
    an input size and \<open>pad2square\<close>;
  \<^item> \<open>force_image_size\<close>, \<open>vision_image_size\<close>, \<open>pad2square\<close>: the model configuration;
  \<^item> \<open>model_chat\<close>: \<open>model.chat\<close> for a template, pixel values, a question and a
    generation configuration, taken to be a function of these arguments (the tokenizer
    is fixed by the checkpoint; with sampling enabled this fixes the random draws);
  \<^item> \<open>path_exists\<close>, \<open>makedirs\<close>, \<open>time_prefix\<close>: the output directory and the clock;
  \<^item> \<open>init_process_group\<close>: rank and world size of this process, from its environment.
\<close>

record 'p externals =
  files :: "string \<rightharpoonup> string"
  json_loads :: "string \<Rightarrow> py_error + json"
  json_dumps :: "json \<Rightarrow> string"
  load_image :: "int \<Rightarrow> bool \<Rightarrow> string \<Rightarrow> py_error + 'p"
  force_image_size :: "int option"
  vision_image_size :: int
  pad2square :: bool
  model_chat :: "string \<Rightarrow> 'p list \<Rightarrow> string \<Rightarrow> generation_config \<Rightarrow> py_error + string"
  path_exists :: "string \<Rightarrow> bool"
  makedirs :: "string \<Rightarrow> py_error option"
  time_prefix :: string
  init_process_group :: "py_error + process_group"

subsection \<open>The dataset reader (\<open>VQADataset\<close>)\<close>

record dataset =
  ds_root :: string
  ds_data :: "string list"
  ds_prompt :: string
  ds_input_size :: int
  ds_pad2square :: bool

text \<open>\<open>__init__\<close> (lines 38 to 42) reads all lines of the question file.\<close>

definition VQADataset :: "'p externals \<Rightarrow> string \<Rightarrow> string \<Rightarrow> string \<Rightarrow> int \<Rightarrow> bool
    \<Rightarrow> py_error + dataset" where
  "VQADataset ext root data prompt input_size p2s =
     (case files ext data of
        None \<Rightarrow> Inl (FileNotFoundError data)
      | Some text \<Rightarrow>
          Inr \<lparr>ds_root = root, ds_data = readlines text, ds_prompt = prompt,
               ds_input_size = input_size, ds_pad2square = p2s\<rparr>)"

text \<open>\<open>__len__\<close> (lines 44 and 45).\<close>

definition dataset_len :: "dataset \<Rightarrow> int" where
  "dataset_len ds = int (length (ds_data ds))"

text \<open>The dict \<open>__getitem__\<close> returns; \<open>unsqueeze(0)\<close> makes a batch of one image.\<close>

record 'p item =
  i_question_id :: json
  i_question :: string
  i_pixel_values :: "'p list"
  i_annotation :: json

text \<open>
  \<open>__getitem__\<close> (lines 47 to 61). The image name must be a str for \<open>os.path.join\<close>
  and the text a str for \<open>+\<close>; the image is opened before the question is built.
\<close>

definition getitem :: "'p externals \<Rightarrow> dataset \<Rightarrow> int \<Rightarrow> py_error + 'p item" where
  "getitem ext ds idx =
     bind_err (py_index (ds_data ds) idx) (\<lambda>line.
     bind_err (json_loads ext (py_strip line)) (\<lambda>data.
     bind_err (py_getitem data ''image'') (\<lambda>image.
     bind_err (py_getitem data ''text'') (\<lambda>question.
     bind_err (py_getitem data ''question_id'') (\<lambda>question_id.
     bind_err (py_get data ''answer'' JNull) (\<lambda>annotation.
     bind_err (case image of
                 JStr name \<Rightarrow>
                   load_image ext (ds_input_size ds) (ds_pad2square ds)
                     (path_join (ds_root ds) name)
               | _ \<Rightarrow> Inl TypeError) (\<lambda>pixels.
     bind_err (case question of
                 JStr q \<Rightarrow> Inr (q @ '' '' @ ds_prompt ds)
               | _ \<Rightarrow> Inl TypeError) (\<lambda>question'.
     Inr \<lparr>i_question_id = question_id, i_question = question',
          i_pixel_values = [pixels], i_annotation = annotation\<rparr>))))))))"

subsection \<open>Batching (\<open>collate_fn\<close> and the data loader)\<close>

record 'p batch =
  b_pixel_values :: "'p list"
  b_questions :: "string list"
  b_question_ids :: "json list"
  b_annotations :: "json list"

text \<open>\<open>collate_fn\<close> (lines 27 to 33); \<open>torch.cat\<close> of no tensors raises.\<close>

definition collate_fn :: "'p item list \<Rightarrow> py_error + 'p batch" where
  "collate_fn batches =
     (if batches = [] then Inl RuntimeError
      else Inr \<lparr>b_pixel_values = concat (map i_pixel_values batches),
                b_questions = map i_question batches,
                b_question_ids = map i_question_id batches,
                b_annotations = map i_annotation batches\<rparr>)"

text \<open>
  The loader's batch sampler with \<open>drop_last=False\<close>: indices are appended to the
  current batch, a full batch is yielded, and what is left at the end is yielded too.
  A negative worker count or a batch size below one is refused when the loader is
  built; the worker count has no other effect on what the loop sees.
\<close>

fun batch_sampler :: "nat \<Rightarrow> int list \<Rightarrow> int list \<Rightarrow> int list list" where
  "batch_sampler b batch [] = (if length batch > 0 then [batch] else [])"
| "batch_sampler b batch (idx # rest) =
     (if length (batch @ [idx]) = b then (batch @ [idx]) # batch_sampler b [] rest
      else batch_sampler b (batch @ [idx]) rest)"

definition DataLoader :: "sampler \<Rightarrow> int \<Rightarrow> int \<Rightarrow> py_error + int list list" where
  "DataLoader smp bs num_workers =
     (if num_workers < 0 then Inl ValueError
      else if bs \<le> 0 then Inl ValueError
      else Inr (batch_sampler (nat bs) [] (sampler_iter smp)))"

text \<open>One batch of the loader: the items are read in order, then collated.\<close>

definition fetch :: "'p externals \<Rightarrow> dataset \<Rightarrow> int list \<Rightarrow> py_error + 'p batch" where
  "fetch ext ds ixs = bind_err (mapM_err (getitem ext ds) ixs) collate_fn"

subsection \<open>Effects of one process\<close>

text \<open>
  What a process does to the outside, in the order it does it. A computation returns
  the events it performed and either its value or the exception that stopped it.
\<close>

datatype 'p event =
    EMakedirs string
  | EPrintDatasets "string list"
  | EPrint string
  | EInitProcessGroup
  | ESetDevice
  | ELoadModel string
  | ELoadTokenizer string
  | ESeed int
  | EOpenRead string
  | EChat string "'p list" string generation_config
  | EBarrier
  | EAllGather string
  | EWrite string string
  | ESystem string

type_synonym ('p, 'a) io = "'p event list \<times> (py_error + 'a)"

definition io_return :: "'a \<Rightarrow> ('p, 'a) io" where
  "io_return x = ([], Inr x)"

definition io_raise :: "py_error \<Rightarrow> ('p, 'a) io" where
  "io_raise e = ([], Inl e)"

definition io_lift :: "py_error + 'a \<Rightarrow> ('p, 'a) io" where
  "io_lift r = ([], r)"

definition io_emit :: "'p event \<Rightarrow> ('p, unit) io" where
  "io_emit ev = ([ev], Inr ())"

definition io_bind :: "('p, 'a) io \<Rightarrow> ('a \<Rightarrow> ('p, 'b) io) \<Rightarrow> ('p, 'b) io" where
  "io_bind m f =
     (case m of
        (evs, Inl e) \<Rightarrow> (evs, Inl e)
      | (evs, Inr x) \<Rightarrow> (case f x of (evs', r) \<Rightarrow> (evs @ evs', r)))"

text \<open>A \<open>for\<close> loop whose body may raise.\<close>

fun io_foreach :: "('a \<Rightarrow> ('p, unit) io) \<Rightarrow> 'a list \<Rightarrow> ('p, unit) io" where
  "io_foreach f [] = io_return ()"
| "io_foreach f (x # xs) = io_bind (f x) (\<lambda>_. io_foreach f xs)"

subsection \<open>The evaluation loop (lines 120 to 146)\<close>

definition generation_config_of :: "args \<Rightarrow> string \<Rightarrow> py_error + generation_config" where
  "generation_config_of a ds_name =
     bind_err (ds_lookup ds_name) (\<lambda>c.
     Inr \<lparr>gc_num_beams = a_num_beams a,
          gc_max_new_tokens = dc_max_new_tokens c,
          gc_min_new_tokens = dc_min_new_tokens c,
          gc_length_penalty = 1,
          gc_do_sample = (if float_gt_zero (a_temperature a) then True else False),
          gc_temperature = a_temperature a\<rparr>)"

text \<open>The call of \<open>model.chat\<close>, recorded with its arguments.\<close>

definition chat_call :: "'p externals \<Rightarrow> string \<Rightarrow> 'p list \<Rightarrow> string \<Rightarrow> generation_config
    \<Rightarrow> ('p, string) io" where
  "chat_call ext tmpl pixel_values question gc =
     ([EChat tmpl pixel_values question gc], model_chat ext tmpl pixel_values question gc)"

text \<open>The object appended to \<open>outputs\<close> (lines 141 to 146).\<close>

definition prediction :: "json \<Rightarrow> string \<Rightarrow> string \<Rightarrow> json" where
  "prediction question_id pred checkpoint =
     JDict [(''question_id'', question_id),
            (''text'', JStr pred),
            (''model_id'', JStr checkpoint),
            (''metadata'', JDict [])]"

text \<open>
  The loop body on one batch. \<open>answers\<close> is the one-element list \<open>[pred]\<close>, and \<open>zip\<close>
  stops at its shortest argument.
\<close>

definition loop_body :: "'p externals \<Rightarrow> args \<Rightarrow> string \<Rightarrow> 'p batch \<Rightarrow> json list
    \<Rightarrow> ('p, json list) io" where
  "loop_body ext a ds_name batch outputs =
     io_bind (io_lift (generation_config_of a ds_name)) (\<lambda>gc.
     io_bind (io_lift (py_index (b_questions batch) 0)) (\<lambda>q0.
     io_bind (chat_call ext (a_template a) (b_pixel_values batch) q0 gc) (\<lambda>pred.
     let answers = [pred] in
     io_return (outputs @
       map (\<lambda>(question_id, answer, annotation). prediction question_id pred (a_checkpoint a))
           (zip (b_question_ids batch) (zip answers (b_annotations batch)))))))"

fun eval_loop :: "'p externals \<Rightarrow> args \<Rightarrow> string \<Rightarrow> dataset \<Rightarrow> int list list \<Rightarrow> json list
    \<Rightarrow> ('p, json list) io" where
  "eval_loop ext a ds_name ds [] outputs = io_return outputs"
| "eval_loop ext a ds_name ds (ixs # rest) outputs =
     io_bind (io_lift (fetch ext ds ixs)) (\<lambda>batch.
     io_bind (loop_body ext a ds_name batch outputs) (\<lambda>outputs'.
     eval_loop ext a ds_name ds rest outputs'))"

text \<open>
  Lines 98 to 146 for one dataset name on one process: the image size, the dataset with
  the prompt \<open>''\<close>, the sampler, the loader, the loop. Its value is the local list
  \<open>outputs\<close>.
\<close>

definition image_size_of :: "'p externals \<Rightarrow> int" where
  "image_size_of ext =
     (case force_image_size ext of Some n \<Rightarrow> n | None \<Rightarrow> vision_image_size ext)"

definition local_run :: "'p externals \<Rightarrow> args \<Rightarrow> process_group \<Rightarrow> string
    \<Rightarrow> ('p, json list) io" where
  "local_run ext a pg ds_name =
     io_bind (io_lift (ds_lookup ds_name)) (\<lambda>c.
     io_bind (io_emit (EOpenRead (dc_question c))) (\<lambda>_.
     io_bind (io_lift (VQADataset ext (dc_root c) (dc_question c) [] (image_size_of ext)
                         (pad2square ext))) (\<lambda>ds.
     io_bind (io_lift (InferenceSampler pg (dataset_len ds))) (\<lambda>smp.
     io_bind (io_lift (DataLoader smp (a_batch_size a) (a_num_workers a))) (\<lambda>batches.
     eval_loop ext a ds_name ds batches [])))))"

definition local_outputs :: "'p externals \<Rightarrow> args \<Rightarrow> process_group \<Rightarrow> string
    \<Rightarrow> py_error + json list" where
  "local_outputs ext a pg ds_name = snd (local_run ext a pg ds_name)"

subsection \<open>Gathering and writing (lines 148 to 169)\<close>

text \<open>
  The local lists of all ranks of a job of \<open>world_size\<close> processes, in increasing rank
  order; every process runs the same script on its own shard.
\<close>

definition rank_outputs :: "'p externals \<Rightarrow> args \<Rightarrow> int \<Rightarrow> string
    \<Rightarrow> (py_error + json list) list" where
  "rank_outputs ext a world_size ds_name =
     map (\<lambda>r. local_outputs ext a \<lparr>pg_rank = r, pg_world_size = world_size\<rparr> ds_name)
         (py_range 0 world_size)"

text \<open>
  \<open>all_gather_object\<close>: slot \<open>r\<close> of the result is what rank \<open>r\<close> contributes, here the
  serialised local list. A rank that raised contributes nothing and the collective does
  not complete: the exception stands for the aborted job.
\<close>

definition all_gather_object :: "'p externals \<Rightarrow> args \<Rightarrow> int \<Rightarrow> string
    \<Rightarrow> py_error + string list" where
  "all_gather_object ext a world_size ds_name =
     mapM_err (\<lambda>r. bind_err r (\<lambda>outputs. Inr (json_dumps ext (JList outputs))))
              (rank_outputs ext a world_size ds_name)"

text \<open>Lines 151 to 155: the gathered strings are parsed and chained.\<close>

definition merged_outputs :: "'p externals \<Rightarrow> args \<Rightarrow> int \<Rightarrow> string \<Rightarrow> py_error + json list" where
  "merged_outputs ext a world_size ds_name =
     bind_err (all_gather_object ext a world_size ds_name) (\<lambda>gathered.
     bind_err (mapM_err (json_loads ext) gathered) chain_from_iterable)"

definition scoring_cmd :: "string \<Rightarrow> string" where
  "scoring_cmd results_file =
     ''python eval/pope/eval_pope.py '' @
     ''--annotation-dir ./data/pope/coco '' @
     ''--question-file ./data/pope/llava_pope_test.jsonl '' @
     ''--result-file '' @ results_file"

definition results_path :: "'p externals \<Rightarrow> args \<Rightarrow> string \<Rightarrow> string" where
  "results_path ext a ds_name =
     path_join (a_out_dir a) (ds_name @ ''_'' @ time_prefix ext @ ''.json'')"

definition evaluate_dataset :: "'p externals \<Rightarrow> args \<Rightarrow> process_group \<Rightarrow> string
    \<Rightarrow> ('p, unit) io" where
  "evaluate_dataset ext a pg ds_name =
     io_bind (local_run ext a pg ds_name) (\<lambda>outputs.
     io_bind (io_emit EBarrier) (\<lambda>_.
     io_bind (io_emit (EAllGather (json_dumps ext (JList outputs)))) (\<lambda>_.
     io_bind (io_lift (merged_outputs ext a (pg_world_size pg) ds_name)) (\<lambda>merged.
     if pg_rank pg = 0 then
       io_bind (io_emit (EPrint (''Evaluating '' @ ds_name @ '' ...''))) (\<lambda>_.
       io_bind (io_emit (EWrite (results_path ext a ds_name)
                                (json_dumps ext (JList merged)))) (\<lambda>_.
       io_bind (io_emit (EPrint (''Results saved to '' @ results_path ext a ds_name))) (\<lambda>_.
       io_bind (io_emit (EPrint (scoring_cmd (results_path ext a ds_name)))) (\<lambda>_.
       io_emit (ESystem (scoring_cmd (results_path ext a ds_name)))))))
     else io_return ()))))"

text \<open>\<open>evaluate_chat_model\<close> (lines 90 to 169), with \<open>args.datasets\<close> already split.\<close>

definition evaluate_chat_model :: "'p externals \<Rightarrow> args \<Rightarrow> string list \<Rightarrow> process_group
    \<Rightarrow> ('p, unit) io" where
  "evaluate_chat_model ext a datasets pg =
     io_bind (io_emit (ELoadModel (a_checkpoint a))) (\<lambda>_.
     io_bind (io_emit (ELoadTokenizer (a_checkpoint a))) (\<lambda>_.
     io_bind (io_emit (ESeed (a_seed a))) (\<lambda>_.
     io_foreach (evaluate_dataset ext a pg) datasets)))"

subsection \<open>The script body (lines 172 to 201)\<close>

definition main :: "'p externals \<Rightarrow> args \<Rightarrow> ('p, unit) io" where
  "main ext a =
     io_bind (if \<not> path_exists ext (a_out_dir a) then
                io_bind (io_emit (EMakedirs (a_out_dir a))) (\<lambda>_.
                io_lift (case makedirs ext (a_out_dir a) of
                           Some e \<Rightarrow> Inl e | None \<Rightarrow> Inr ()))
              else io_return ()) (\<lambda>_.
     io_bind (io_emit (EPrintDatasets (split_on CHR '','' (a_datasets a)))) (\<lambda>_.
     io_bind (if a_batch_size a = 1 then io_return ()
              else io_raise (AssertionError ''Only batch size 1 is supported'')) (\<lambda>_.
     io_bind (io_emit EInitProcessGroup) (\<lambda>_.
     io_bind (io_lift (init_process_group ext)) (\<lambda>pg.
     io_bind (io_emit ESetDevice) (\<lambda>_.
     evaluate_chat_model ext a (split_on CHR '','' (a_datasets a)) pg))))))"

section \<open>Notions of the specification\<close>

text \<open>The closed form of the boundary before rank \<open>r\<close>: \<open>r\<close> shards of the base size,
  and one more item for each of the first \<open>left\<close> ranks.\<close>

definition shard_bound :: "int \<Rightarrow> int \<Rightarrow> int \<Rightarrow> int" where
  "shard_bound t w r = r * (t div w) + min r (t mod w)"

text \<open>
  The content of a line is the line without its terminator; a line is non-empty when
  its content is. The specification counts the non-empty lines of the question file.
\<close>

definition line_content :: "string \<Rightarrow> string" where
  "line_content l = (if l \<noteq> [] \<and> last l = newline then butlast l else l)"

definition nonempty_line_count :: "string \<Rightarrow> int" where
  "nonempty_line_count content = int (length (filter (\<lambda>l. line_content l \<noteq> []) (readlines content)))"

definition blank_line_count :: "string \<Rightarrow> int" where
  "blank_line_count content = int (length (filter (\<lambda>l. line_content l = []) (readlines content)))"

text \<open>
  Concatenating the local lists of the ranks in increasing rank order. If a rank raised,
  there is no list to concatenate and the first such exception is the result.
\<close>

definition concat_in_rank_order :: "(py_error + 'a list) list \<Rightarrow> py_error + 'a list" where
  "concat_in_rank_order rs = bind_err (mapM_err (\<lambda>r. r) rs) (\<lambda>lists. Inr (concat lists))"

section \<open>A small job for concrete runs\<close>

text \<open>
  Three questions, a chat model that answers \<open>yes\<close> to the first and \<open>no\<close> to the others,
  a process group of two. The codec of this job is a table over the lines and lists that
  occur in it; an image is represented by its path.
\<close>

definition demo_rec :: "string \<Rightarrow> string \<Rightarrow> int \<Rightarrow> json" where
  "demo_rec img txt qid =
     JDict [(''image'', JStr img), (''text'', JStr txt), (''question_id'', JInt qid)]"

definition demo_questions :: string where
  "demo_questions = ''{a.jpg|Is there a dog?|1}\<newline>{b.jpg|Is there a cat?|2}\<newline>{c.jpg|Is there a car?|3}\<newline>''"

definition demo_pred :: "int \<Rightarrow> string \<Rightarrow> json" where
  "demo_pred qid txt = prediction (JInt qid) txt ''ckpt''"

definition demo_loads :: "string \<Rightarrow> py_error + json" where
  "demo_loads s =
     (if s = ''{a.jpg|Is there a dog?|1}'' then Inr (demo_rec ''a.jpg'' ''Is there a dog?'' 1)
      else if s = ''{b.jpg|Is there a cat?|2}'' then Inr (demo_rec ''b.jpg'' ''Is there a cat?'' 2)
      else if s = ''{c.jpg|Is there a car?|3}'' then Inr (demo_rec ''c.jpg'' ''Is there a car?'' 3)
      else if s = ''[1:yes,2:no]'' then Inr (JList [demo_pred 1 ''yes'', demo_pred 2 ''no''])
      else if s = ''[3:no]'' then Inr (JList [demo_pred 3 ''no''])
      else if s = ''[1:yes,2:no,3:no]''
        then Inr (JList [demo_pred 1 ''yes'', demo_pred 2 ''no'', demo_pred 3 ''no''])
      else Inl JSONDecodeError)"

definition demo_dumps :: "json \<Rightarrow> string" where
  "demo_dumps j =
     (if j = JList [demo_pred 1 ''yes'', demo_pred 2 ''no''] then ''[1:yes,2:no]''
      else if j = JList [demo_pred 3 ''no''] then ''[3:no]''
      else if j = JList [demo_pred 1 ''yes'', demo_pred 2 ''no'', demo_pred 3 ''no'']
        then ''[1:yes,2:no,3:no]''
      else ''?'')"

definition demo_ext :: "string externals" where
  "demo_ext =
     \<lparr>files = [''data/pope/llava_pope_test.jsonl'' \<mapsto> demo_questions],
      json_loads = demo_loads,
      json_dumps = demo_dumps,
      load_image = (\<lambda>input_size p2s path. Inr path),
      force_image_size = None,
      vision_image_size = 224,
      pad2square = False,
      model_chat = (\<lambda>tmpl px q gc. Inr (if q = ''Is there a dog? '' then ''yes'' else ''no'')),
      path_exists = (\<lambda>p. True),
      makedirs = (\<lambda>p. None),
      time_prefix = ''261103120000'',
      init_process_group = Inr \<lparr>pg_rank = 0, pg_world_size = 2\<rparr>\<rparr>"

definition demo_args :: args where
  "demo_args =
     \<lparr>a_checkpoint = ''ckpt'', a_datasets = ''pope'', a_batch_size = 1, a_num_workers = 1,
      a_num_beams = 5, a_template = ''vicuna_v1.1'', a_temperature = 0,
      a_out_dir = ''results'', a_seed = 0\<rparr>"

definition demo_dataset :: dataset where
  "demo_dataset =
     \<lparr>ds_root = ''data/pope/val2014'', ds_data = readlines demo_questions,
      ds_prompt = ''Answer briefly.'', ds_input_size = 224, ds_pad2square = False\<rparr>"


text \<open>A question file whose second line is blank.\<close>

definition blank_line_text :: string where
  "blank_line_text = ''{a.jpg|Is there a dog?|1}\<newline>\<newline>{b.jpg|Is there a cat?|2}\<newline>''"

definition blank_line_dataset :: dataset where
  "blank_line_dataset =
     \<lparr>ds_root = ''root'',
      ds_data = [''{a.jpg|Is there a dog?|1}\<newline>'', ''\<newline>'',
                 ''{b.jpg|Is there a cat?|2}\<newline>''],
      ds_prompt = [], ds_input_size = 224, ds_pad2square = False\<rparr>"

section \<open>Properties\<close>

subsection \<open>Sequencing\<close>

lemma bind_err_Inl [simp]: "bind_err (Inl e) f = Inl e"
  by (simp add: bind_err_def)

lemma bind_err_Inr [simp]: "bind_err (Inr x) f = f x"
  by (simp add: bind_err_def)

lemma bind_err_eq_Inr: "bind_err m f = Inr y \<longleftrightarrow> (\<exists>x. m = Inr x \<and> f x = Inr y)"
  by (cases m) simp_all

lemma bind_err_assoc: "bind_err (bind_err m f) g = bind_err m (\<lambda>x. bind_err (f x) g)"
  by (cases m) simp_all

lemma bind_err_Inr_id [simp]: "bind_err m Inr = m"
  by (cases m) simp_all

lemma snd_io_bind: "snd (io_bind m f) = bind_err (snd m) (\<lambda>x. snd (f x))"
  by (simp add: io_bind_def bind_err_def split: sum.splits prod.splits)

lemma fst_io_bind:
  "fst (io_bind m f) = fst m @ (case snd m of Inl e \<Rightarrow> [] | Inr x \<Rightarrow> fst (f x))"
  by (simp add: io_bind_def split: sum.splits prod.splits)

lemma io_basic [simp]:
  "fst (io_return x) = []" "snd (io_return x) = Inr x"
  "fst (io_raise e) = []" "snd (io_raise e) = Inl e"
  "fst (io_lift r) = []" "snd (io_lift r) = r"
  "fst (io_emit ev) = [ev]" "snd (io_emit ev) = Inr ()"
  by (simp_all add: io_return_def io_raise_def io_lift_def io_emit_def)

lemma events_io_bind:
  "ev \<in> set (fst (io_bind m f)) \<Longrightarrow>
     ev \<in> set (fst m) \<or> (\<exists>x. snd m = Inr x \<and> ev \<in> set (fst (f x)))"
  by (auto simp: fst_io_bind split: sum.splits)

lemma events_io_foreach:
  "ev \<in> set (fst (io_foreach f xs)) \<Longrightarrow> \<exists>x\<in>set xs. ev \<in> set (fst (f x))"
  by (induction xs) (auto dest!: events_io_bind)

lemma mapM_err_append:
  "mapM_err f (xs @ ys) =
     bind_err (mapM_err f xs) (\<lambda>as. bind_err (mapM_err f ys) (\<lambda>bs. Inr (as @ bs)))"
proof (induction xs)
  case Nil show ?case by simp
next
  case (Cons x xs)
  show ?case
    by (cases "f x"; cases "mapM_err f xs"; cases "mapM_err f ys") (simp_all add: Cons.IH)
qed

lemma mapM_err_Inr_all2:
  "mapM_err f xs = Inr ys \<Longrightarrow> list_all2 (\<lambda>x y. f x = Inr y) xs ys"
proof (induction xs arbitrary: ys)
  case Nil then show ?case by simp
next
  case (Cons x xs)
  then show ?case by (auto simp: bind_err_eq_Inr)
qed

subsection \<open>The shards partition the dataset\<close>

lemma upto_as_upt: "[0..int n - 1] = map int [0..<n]"
proof (induction n)
  case 0 show ?case by simp
next
  case (Suc n)
  have "[0..int (Suc n) - 1] = [0..int n - 1] @ [int n]"
    using upto_rec2[of 0 "int n"] by simp
  with Suc show ?case by simp
qed

lemma py_range_0: "0 \<le> w \<Longrightarrow> py_range 0 w = map int [0..<nat w]"
  using upto_as_upt[of "nat w"] by (simp add: py_range_def)

lemma py_range_0_Cons: "1 \<le> w \<Longrightarrow> py_range 0 w = 0 # py_range 1 w"
  by (simp add: py_range_def upto_rec1)

lemma set_py_range: "set (py_range a b) = {a..<b}"
  by (auto simp: py_range_def)

lemma length_py_range: "length (py_range a b) = nat (b - a)"
  by (simp add: py_range_def)

lemma sum_prefix:
  "0 \<le> l \<Longrightarrow> sum_list (map (\<lambda>r. q + (if r < l then 1 else 0)) (map int [0..<k])) = int k * q + min (int k) l"
  by (induction k) (auto simp: algebra_simps min_def)

lemma prefix_sum:
  assumes "1 \<le> w" "0 \<le> k" "k \<le> w"
  shows "sum_list (slice_to (shard_sizes t w) k) = shard_bound t w k"
proof -
  have l: "0 \<le> t mod w" using assms by simp
  have "slice_to (shard_sizes t w) k = map (\<lambda>r. t div w + (if r < t mod w then 1 else 0)) (map int [0..<nat k])"
    using assms by (simp add: slice_to_def shard_sizes_def py_range_0 take_map Let_def min_def)
  then show ?thesis using sum_prefix[OF l, of "t div w" "nat k"] assms by (simp add: shard_bound_def)
qed

lemma shard_bound_0: "1 \<le> w \<Longrightarrow> shard_bound t w 0 = 0"
  by (simp add: shard_bound_def)

lemma shard_bound_w: "1 \<le> w \<Longrightarrow> shard_bound t w w = t"
proof -
  assume w: "1 \<le> w"
  then have "t mod w < w" by simp
  then have "min w (t mod w) = t mod w" by simp
  then show ?thesis by (simp add: shard_bound_def mult.commute)
qed

lemma shard_bound_step:
  "shard_bound t w (r + 1) - shard_bound t w r = t div w + (if r < t mod w then 1 else 0)"
  by (simp add: shard_bound_def algebra_simps min_def)

lemma shard_bound_mono_step:
  assumes "0 \<le> t" "1 \<le> w"
  shows "shard_bound t w r \<le> shard_bound t w (r + 1)"
proof -
  have "0 \<le> t div w" using assms by (simp add: pos_imp_zdiv_nonneg_iff)
  then show ?thesis using shard_bound_step[of t w r] by (simp split: if_splits)
qed

lemma shard_bound_mono:
  assumes "0 \<le> t" "1 \<le> w" "r \<le> s"
  shows "shard_bound t w r \<le> shard_bound t w s"
proof -
  have q: "0 \<le> t div w" using assms by (simp add: pos_imp_zdiv_nonneg_iff)
  have "r * (t div w) \<le> s * (t div w)" using assms q by (simp add: mult_right_mono)
  moreover have "min r (t mod w) \<le> min s (t mod w)" using assms by simp
  ultimately show ?thesis unfolding shard_bound_def by linarith
qed

lemma shard_bound_le_total:
  assumes "0 \<le> t" "1 \<le> w" "0 \<le> r" "r \<le> w"
  shows "shard_bound t w r \<le> t"
proof -
  have q: "0 \<le> t div w" using assms by (simp add: pos_imp_zdiv_nonneg_iff)
  have "r * (t div w) \<le> w * (t div w)" using assms q by (simp add: mult_right_mono)
  moreover have "min r (t mod w) \<le> t mod w" by simp
  moreover have "w * (t div w) + t mod w = t" by simp
  ultimately show ?thesis unfolding shard_bound_def by linarith
qed

lemma get_local_indices_eq:
  assumes "0 \<le> t" "1 \<le> w" "0 \<le> r" "r < w"
  shows "get_local_indices t w r = Inr (py_range (shard_bound t w r) (shard_bound t w (r + 1)))"
proof -
  have b: "sum_list (slice_to (shard_sizes t w) r) = shard_bound t w r"
    using assms by (simp add: prefix_sum)
  have e: "sum_list (slice_to (shard_sizes t w) (r + 1)) = shard_bound t w (r + 1)"
    using assms by (simp add: prefix_sum)
  have "shard_bound t w (r + 1) \<le> t" using assms by (simp add: shard_bound_le_total)
  then show ?thesis using assms b e by (simp add: get_local_indices_def Let_def min_def)
qed

lemma concat_consecutive:
  assumes "\<And>r. b r \<le> b (r + 1)"
  shows "concat (map (\<lambda>r. py_range (b r) (b (r + 1))) (map int [0..<k])) = py_range (b 0) (b (int k))"
proof (induction k)
  case 0 show ?case by (simp add: py_range_def)
next
  case (Suc k)
  have m: "b 0 \<le> b (int k)"
  proof (induction k)
    case 0 show ?case by simp
  next
    case (Suc j) then show ?case using assms[of "int j"] by (simp add: add.commute)
  qed
  have s: "b (int k) \<le> b (int k + 1)" using assms by simp
  have "[b 0..b (int k + 1) - 1] = [b 0..b (int k) - 1] @ [b (int k)..b (int k + 1) - 1]"
  proof (cases "b (int k) = b (int k + 1)")
    case True then show ?thesis by simp
  next
    case False
    with s have "b (int k) \<le> b (int k + 1) - 1" by simp
    then show ?thesis using upto_split1[OF m, of "b (int k + 1) - 1"] by simp
  qed
  then show ?case using Suc by (simp add: py_range_def add.commute)
qed

lemma concat_shards:
  assumes "0 \<le> n" "1 \<le> w"
  shows "concat (map (\<lambda>r. py_range (shard_bound n w r) (shard_bound n w (r + 1))) (map int [0..<nat w]))
         = py_range 0 n"
proof -
  have "concat (map (\<lambda>r. py_range (shard_bound n w r) (shard_bound n w (r + 1))) (map int [0..<nat w]))
        = py_range (shard_bound n w 0) (shard_bound n w (int (nat w)))"
    using shard_bound_mono_step[OF assms] by (rule concat_consecutive)
  then show ?thesis using assms by (simp add: shard_bound_0 shard_bound_w)
qed

lemma all_shards_eq:
  assumes "0 \<le> t" "1 \<le> w"
  shows "all_shards t w =
    map Inr (map (\<lambda>r. py_range (shard_bound t w r) (shard_bound t w (r + 1))) (map int [0..<nat w]))"
  using assms by (simp add: all_shards_def py_range_0 get_local_indices_eq)

text \<open>
  C1. For a positive total size and at least one process, every rank of the job gets
  a shard; the shards, concatenated in rank order, are \<open>0, 1, ..., total_size - 1\<close>, so
  their union is \<open>[0, total_size)\<close>; two different ranks share no index; two shard
  sizes differ by at most one; and a lower rank never has the smaller shard.
\<close>

theorem shards_partition:
  assumes "0 < total_size" and "1 \<le> world_size"
  shows "\<exists>shards.
      all_shards total_size world_size = map Inr shards
    \<and> length shards = nat world_size
    \<and> (\<forall>r. 0 \<le> r \<and> r < world_size \<longrightarrow>
          get_local_indices total_size world_size r = Inr (shards ! nat r))
    \<and> concat shards = py_range 0 total_size
    \<and> (\<Union>i<nat world_size. set (shards ! i)) = {0..<total_size}
    \<and> (\<forall>i<nat world_size. \<forall>j<nat world_size.
          i \<noteq> j \<longrightarrow> set (shards ! i) \<inter> set (shards ! j) = {})
    \<and> (\<forall>i<nat world_size. \<forall>j<nat world_size.
          int (length (shards ! i)) \<le> int (length (shards ! j)) + 1)
    \<and> (\<forall>i<nat world_size. \<forall>j<nat world_size.
          i \<le> j \<longrightarrow> length (shards ! j) \<le> length (shards ! i))"
proof -
  define t where "t = total_size"
  define w where "w = world_size"
  define b where "b = shard_bound t w"
  define shards where "shards = map (\<lambda>r. py_range (b r) (b (r + 1))) (map int [0..<nat w])"
  have t0: "0 \<le> t" and w1: "1 \<le> w" using assms by (simp_all add: t_def w_def)
  have step: "b r \<le> b (r + 1)" for r
    unfolding b_def using t0 w1 by (rule shard_bound_mono_step)
  have mono: "r \<le> s \<Longrightarrow> b r \<le> b s" for r s
    unfolding b_def using t0 w1 by (rule shard_bound_mono)
  have nth: "shards ! i = py_range (b (int i)) (b (int i + 1))" if "i < nat w" for i
    using that by (simp add: shards_def)
  have len: "int (length (shards ! i)) = t div w + (if int i < t mod w then 1 else 0)"
    if "i < nat w" for i
  proof -
    have "b (int i + 1) - b (int i) = t div w + (if int i < t mod w then 1 else 0)"
      unfolding b_def by (rule shard_bound_step)
    moreover have "0 \<le> b (int i + 1) - b (int i)" using step[of "int i"] by simp
    ultimately show ?thesis using that by (simp add: nth length_py_range)
  qed
  have c1: "all_shards t w = map Inr shards"
    unfolding shards_def b_def using t0 w1 by (rule all_shards_eq)
  have c2: "length shards = nat w" by (simp add: shards_def)
  have c3: "get_local_indices t w r = Inr (shards ! nat r)" if "0 \<le> r \<and> r < w" for r
    using that t0 w1 by (simp add: nth get_local_indices_eq b_def)
  have c4: "concat shards = py_range 0 t"
  proof -
    have "concat shards = py_range (b 0) (b (int (nat w)))"
      unfolding shards_def using step by (rule concat_consecutive)
    then show ?thesis using w1 by (simp add: b_def shard_bound_0 shard_bound_w)
  qed
  have c5: "(\<Union>i<nat w. set (shards ! i)) = {0..<t}"
  proof -
    have "(\<Union>i<nat w. set (shards ! i)) = \<Union> (set ` set shards)"
      using c2 by (auto simp: set_conv_nth)
    also have "\<dots> = set (concat shards)" by simp
    finally show ?thesis by (simp add: c4 set_py_range)
  qed
  have disj: "set (shards ! i) \<inter> set (shards ! j) = {}" if "i < j" "j < nat w" for i j
  proof -
    have "b (int i + 1) \<le> b (int j)" using that by (intro mono) simp
    then show ?thesis using that by (auto simp: nth set_py_range)
  qed
  have c6: "\<forall>i<nat w. \<forall>j<nat w. i \<noteq> j \<longrightarrow> set (shards ! i) \<inter> set (shards ! j) = {}"
  proof (intro allI impI)
    fix i j assume "i < nat w" "j < nat w" "i \<noteq> j"
    then consider "i < j" | "j < i" by linarith
    then show "set (shards ! i) \<inter> set (shards ! j) = {}"
    proof cases
      case 1 then show ?thesis using disj[of i j] \<open>j < nat w\<close> by simp
    next
      case 2 then show ?thesis using disj[of j i] \<open>i < nat w\<close> by (simp add: Int_commute)
    qed
  qed
  have c7: "\<forall>i<nat w. \<forall>j<nat w. int (length (shards ! i)) \<le> int (length (shards ! j)) + 1"
    by (simp add: len)
  have c8: "\<forall>i<nat w. \<forall>j<nat w. i \<le> j \<longrightarrow> length (shards ! j) \<le> length (shards ! i)"
  proof (intro allI impI)
    fix i j assume "i < nat w" "j < nat w" "i \<le> j"
    then have "int (length (shards ! j)) \<le> int (length (shards ! i))" by (simp add: len)
    then show "length (shards ! j) \<le> length (shards ! i)" by simp
  qed
  show ?thesis
    unfolding t_def[symmetric] w_def[symmetric]
    using c1 c2 c3 c4 c5 c6 c7 c8 by blast
qed

theorem shards_partition_witness:
  "(0::int) < 10 \<and> (1::int) \<le> 3
   \<and> all_shards 10 3 = [Inr [0, 1, 2, 3], Inr [4, 5, 6], Inr [7, 8, 9]]
   \<and> concat [[0, 1, 2, 3], [4, 5, 6], [7, 8, 9]] = py_range 0 10"
proof -
  have ev: "all_shards 10 3 = [Inr [0, 1, 2, 3], Inr [4, 5, 6], Inr [7, 8, 9]]"
    by code_simp
  obtain shards where s: "all_shards 10 3 = map Inr shards"
    and c: "concat shards = py_range 0 10"
    using shards_partition[of 10 3] by auto
  from s ev have "shards = [[0, 1, 2, 3], [4, 5, 6], [7, 8, 9]]"
    by (auto simp: map_eq_Cons_conv)
  with c ev show ?thesis by simp
qed

subsection \<open>The sampler's precondition\<close>

text \<open>
  C5. Building the shard sampler for a size that is not positive fails on the assertion
  \<open>size > 0\<close> and no sampler (no shard) is produced; for a positive size it succeeds
  and the sampler holds the shard of the process's rank. (The world size is not an
  argument: it is that of the process group, which is never zero.)
\<close>

theorem sampler_precondition:
  "(size_arg \<le> 0 \<longrightarrow> InferenceSampler pg size_arg = Inl (AssertionError []))
   \<and> (0 < size_arg \<and> pg_world_size pg \<noteq> 0 \<longrightarrow>
        (\<exists>smp. InferenceSampler pg size_arg = Inr smp
              \<and> get_local_indices size_arg (pg_world_size pg) (pg_rank pg)
                  = Inr (sampler_iter smp)))"
  by (auto simp: InferenceSampler_def get_local_indices_def sampler_iter_def Let_def)

theorem sampler_precondition_witness:
  "InferenceSampler \<lparr>pg_rank = 1, pg_world_size = 3\<rparr> 0 = Inl (AssertionError [])
   \<and> InferenceSampler \<lparr>pg_rank = 1, pg_world_size = 3\<rparr> (- 4) = Inl (AssertionError [])
   \<and> InferenceSampler \<lparr>pg_rank = 1, pg_world_size = 3\<rparr> 10
       = Inr \<lparr>s_size = 10, s_rank = 1, s_world_size = 3, s_local_indices = [4, 5, 6]\<rparr>"
proof -
  have ev: "get_local_indices 10 3 1 = Inr [4, 5, 6]"
    by code_simp
  show ?thesis
    using sampler_precondition[of 0 "\<lparr>pg_rank = 1, pg_world_size = 3\<rparr>"]
      sampler_precondition[of "- 4" "\<lparr>pg_rank = 1, pg_world_size = 3\<rparr>"]
      sampler_precondition[of 10 "\<lparr>pg_rank = 1, pg_world_size = 3\<rparr>"] ev
    by (auto simp: InferenceSampler_def sampler_iter_def)
qed

subsection \<open>The dataset reader\<close>

lemma readlines_Nil_iff: "readlines s = [] \<longleftrightarrow> s = []"
  by (cases s) (auto split: list.splits)

lemma length_readlines:
  "length (readlines s) = count_list s newline + (if s \<noteq> [] \<and> last s \<noteq> newline then 1 else 0)"
proof (induction s)
  case Nil show ?case by simp
next
  case (Cons c cs)
  show ?case
  proof (cases "c = newline")
    case True with Cons show ?thesis by simp
  next
    case False
    show ?thesis
    proof (cases "readlines cs")
      case Nil
      then have "cs = []" by (simp add: readlines_Nil_iff)
      with False show ?thesis by simp
    next
      case (Cons l ls)
      then have "cs \<noteq> []" by auto
      with Cons Cons.IH False show ?thesis by simp
    qed
  qed
qed

lemma line_counts: "int (length (readlines content)) = nonempty_line_count content + blank_line_count content"
  unfolding nonempty_line_count_def blank_line_count_def
  using sum_length_filter_compl[of "\<lambda>l. line_content l \<noteq> []" "readlines content"] by simp

text \<open>
  C3, as the specification states it, fails: a question file with a blank line between
  two records has three lines, and the reader's length is three, while only two of its
  lines are non-empty.
\<close>

theorem dataset_len_counterexample:
  "VQADataset (demo_ext\<lparr>files := [''q.jsonl'' \<mapsto> blank_line_text]\<rparr>)
       ''root'' ''q.jsonl'' [] 224 False = Inr blank_line_dataset
   \<and> dataset_len blank_line_dataset = 3
   \<and> nonempty_line_count blank_line_text = 2
   \<and> dataset_len blank_line_dataset \<noteq> nonempty_line_count blank_line_text"
  by (simp add: VQADataset_def demo_ext_def blank_line_text_def blank_line_dataset_def
      dataset_len_def nonempty_line_count_def line_content_def newline_def)

text \<open>
  C3, amended. The item count of the dataset reader is the number of lines of the
  question file, blank lines included: one for every line terminator, and one more for a
  last line without terminator. It is the number of non-empty lines plus the number of
  blank lines, so the two counts agree exactly when the file has no blank line.
\<close>

theorem dataset_len_counts_all_lines:
  assumes "VQADataset ext root_dir data prompt input_size p2s = Inr ds"
  shows "\<exists>content. files ext data = Some content
     \<and> dataset_len ds = int (length (readlines content))
     \<and> dataset_len ds =
         int (count_list content newline) + (if content \<noteq> [] \<and> last content \<noteq> newline then 1 else 0)
     \<and> dataset_len ds = nonempty_line_count content + blank_line_count content
     \<and> (dataset_len ds = nonempty_line_count content \<longleftrightarrow> blank_line_count content = 0)"
proof -
  from assms obtain content where f: "files ext data = Some content"
    and d: "ds_data ds = readlines content"
    by (auto simp: VQADataset_def split: option.splits)
  have l: "dataset_len ds = int (length (readlines content))"
    by (simp add: dataset_len_def d)
  have c: "dataset_len ds = nonempty_line_count content + blank_line_count content"
    using l line_counts by simp
  have n: "dataset_len ds =
         int (count_list content newline) + (if content \<noteq> [] \<and> last content \<noteq> newline then 1 else 0)"
    using l by (simp add: length_readlines)
  from c have "dataset_len ds = nonempty_line_count content \<longleftrightarrow> blank_line_count content = 0" by linarith
  with f l n c show ?thesis by blast
qed

theorem dataset_len_counts_all_lines_witness:
  "VQADataset demo_ext ''data/pope/val2014'' ''data/pope/llava_pope_test.jsonl'' [] 224 False
     = Inr \<lparr>ds_root = ''data/pope/val2014'', ds_data = readlines demo_questions,
            ds_prompt = [], ds_input_size = 224, ds_pad2square = False\<rparr>
   \<and> dataset_len \<lparr>ds_root = ''data/pope/val2014'', ds_data = readlines demo_questions,
            ds_prompt = [], ds_input_size = 224, ds_pad2square = False\<rparr> = 3
   \<and> nonempty_line_count demo_questions = 3 \<and> blank_line_count demo_questions = 0"
proof -
  have v: "VQADataset demo_ext ''data/pope/val2014'' ''data/pope/llava_pope_test.jsonl'' [] 224 False
     = Inr \<lparr>ds_root = ''data/pope/val2014'', ds_data = readlines demo_questions,
            ds_prompt = [], ds_input_size = 224, ds_pad2square = False\<rparr>"
    by (simp add: VQADataset_def demo_ext_def)
  have b: "blank_line_count demo_questions = 0"
    by (simp add: blank_line_count_def demo_questions_def line_content_def newline_def)
  have n: "nonempty_line_count demo_questions = 3"
    by (simp add: nonempty_line_count_def demo_questions_def line_content_def newline_def)
  from dataset_len_counts_all_lines[OF v] b n show ?thesis
    using v by (auto simp: demo_ext_def)
qed

text \<open>
  C7. The question of an item the reader returns is the \<open>text\<close> field of the parsed
  line followed by a suffix that does not depend on the record: one blank and the
  reader's prompt. (The driver builds its reader with the empty prompt, so the suffix
  there is the blank alone.)
\<close>

theorem question_is_text_plus_suffix:
  assumes "getitem ext ds idx = Inr it"
  shows "\<exists>line data q. py_index (ds_data ds) idx = Inr line
      \<and> json_loads ext (py_strip line) = Inr data
      \<and> py_getitem data ''text'' = Inr (JStr q)
      \<and> i_question it = q @ '' '' @ ds_prompt ds"
proof -
  from assms obtain line data img question where
    l: "py_index (ds_data ds) idx = Inr line" and
    d: "json_loads ext (py_strip line) = Inr data" and
    t: "py_getitem data ''text'' = Inr question" and
    q: "\<exists>qid ann px q'. (case question of JStr q \<Rightarrow> Inr (q @ '' '' @ ds_prompt ds)
                                | _ \<Rightarrow> Inl TypeError) = Inr q'
          \<and> it = \<lparr>i_question_id = qid, i_question = q', i_pixel_values = [px],
                     i_annotation = ann\<rparr>"
    unfolding getitem_def bind_err_eq_Inr by blast
  from q obtain q where "question = JStr q" and "i_question it = q @ '' '' @ ds_prompt ds"
    by (cases question) auto
  with l d t show ?thesis by auto
qed

theorem question_is_text_plus_suffix_witness:
  "getitem demo_ext demo_dataset 1
     = Inr \<lparr>i_question_id = JInt 2, i_question = ''Is there a cat? Answer briefly.'',
            i_pixel_values = [''data/pope/val2014/b.jpg''], i_annotation = JNull\<rparr>
   \<and> py_index (ds_data demo_dataset) 1 = Inr ''{b.jpg|Is there a cat?|2}\<newline>''
   \<and> py_getitem (demo_rec ''b.jpg'' ''Is there a cat?'' 2) ''text'' = Inr (JStr ''Is there a cat?'')
   \<and> ds_prompt demo_dataset = ''Answer briefly.''"
proof -
  have g: "getitem demo_ext demo_dataset 1
     = Inr \<lparr>i_question_id = JInt 2, i_question = ''Is there a cat? Answer briefly.'',
            i_pixel_values = [''data/pope/val2014/b.jpg''], i_annotation = JNull\<rparr>"
    by (simp add: getitem_def demo_dataset_def demo_ext_def demo_questions_def py_index_def
        newline_def py_strip_def is_space_def demo_loads_def demo_rec_def path_join_def)
  have i: "py_index (ds_data demo_dataset) 1 = Inr ''{b.jpg|Is there a cat?|2}\<newline>''"
    by (simp add: demo_dataset_def demo_questions_def py_index_def newline_def)
  from question_is_text_plus_suffix[OF g] g i show ?thesis
    by (simp add: demo_rec_def demo_dataset_def)
qed

subsection \<open>The batch size assertion\<close>

text \<open>
  C4. With a batch size other than 1 the script fails, and all it has done before is
  to create the output directory, if missing, and to print the dataset names: the process
  group is not initialised, no model is loaded, no question file is opened, the model is
  not called. The failure is the assertion \<open>Only batch size 1 is supported\<close>, unless
  creating the output directory has failed before it.
\<close>

theorem batch_size_assertion:
  assumes "a_batch_size a \<noteq> 1"
  shows "(\<exists>e. snd (main ext a) = Inl e)
     \<and> set (fst (main ext a)) \<subseteq>
          {EMakedirs (a_out_dir a), EPrintDatasets (split_on CHR '','' (a_datasets a))}
     \<and> (path_exists ext (a_out_dir a) \<or> makedirs ext (a_out_dir a) = None \<longrightarrow>
          snd (main ext a) = Inl (AssertionError ''Only batch size 1 is supported''))"
  using assms unfolding main_def
  by (auto simp: snd_io_bind fst_io_bind split: option.splits)

theorem batch_size_assertion_witness:
  "a_batch_size (demo_args\<lparr>a_batch_size := 2\<rparr>) \<noteq> 1
   \<and> main demo_ext (demo_args\<lparr>a_batch_size := 2\<rparr>)
       = ([EPrintDatasets [''pope'']], Inl (AssertionError ''Only batch size 1 is supported''))"
proof -
  have n: "a_batch_size (demo_args\<lparr>a_batch_size := 2\<rparr>) \<noteq> 1" by simp
  have e: "fst (main demo_ext (demo_args\<lparr>a_batch_size := 2\<rparr>)) = [EPrintDatasets [''pope'']]"
    by (simp add: main_def demo_ext_def demo_args_def fst_io_bind)
  have p: "path_exists demo_ext (a_out_dir (demo_args\<lparr>a_batch_size := 2\<rparr>))"
    by (simp add: demo_ext_def)
  from batch_size_assertion[OF n, of demo_ext] p
  have "snd (main demo_ext (demo_args\<lparr>a_batch_size := 2\<rparr>))
          = Inl (AssertionError ''Only batch size 1 is supported'')" by blast
  with e n show ?thesis by (simp add: prod_eq_iff)
qed

subsection \<open>What is passed to the model\<close>

lemma loop_body_events:
  "fst (loop_body ext a dsn batch outs) =
     (case generation_config_of a dsn of
        Inl e \<Rightarrow> []
      | Inr gc \<Rightarrow>
          (case py_index (b_questions batch) 0 of
             Inl e \<Rightarrow> []
           | Inr q0 \<Rightarrow> [EChat (a_template a) (b_pixel_values batch) q0 gc]))"
  by (simp add: loop_body_def fst_io_bind chat_call_def Let_def split: sum.splits)

lemma loop_body_events_mem:
  "ev \<in> set (fst (loop_body ext a dsn batch outs)) \<Longrightarrow>
     \<exists>gc q0. generation_config_of a dsn = Inr gc \<and> py_index (b_questions batch) 0 = Inr q0
        \<and> ev = EChat (a_template a) (b_pixel_values batch) q0 gc"
  by (cases "generation_config_of a dsn"; cases "py_index (b_questions batch) 0")
     (simp_all add: loop_body_events)

lemma loop_body_result:
  "snd (loop_body ext a dsn batch outs) =
     bind_err (generation_config_of a dsn) (\<lambda>gc.
     bind_err (py_index (b_questions batch) 0) (\<lambda>q0.
     bind_err (model_chat ext (a_template a) (b_pixel_values batch) q0 gc) (\<lambda>pred.
     Inr (outs @ map (\<lambda>qid. prediction qid pred (a_checkpoint a))
                     (take (min 1 (length (b_annotations batch))) (b_question_ids batch))))))"
proof -
  have z: "map (\<lambda>(question_id, answer, annotation). prediction question_id pred ck)
             (zip qids (zip [pred] anns))
           = map (\<lambda>qid. prediction qid pred ck) (take (min 1 (length anns)) qids)"
    for pred ck and qids anns :: "json list"
    by (cases qids; cases anns) simp_all
  show ?thesis
    by (simp add: loop_body_def snd_io_bind chat_call_def Let_def z)
qed

lemma eval_loop_events:
  "ev \<in> set (fst (eval_loop ext a dsn ds bs outs)) \<Longrightarrow>
     \<exists>ixs batch gc q0. ixs \<in> set bs \<and> fetch ext ds ixs = Inr batch
        \<and> generation_config_of a dsn = Inr gc \<and> py_index (b_questions batch) 0 = Inr q0
        \<and> ev = EChat (a_template a) (b_pixel_values batch) q0 gc"
proof (induction bs arbitrary: outs)
  case Nil then show ?case by simp
next
  case (Cons ixs rest)
  from Cons.prems have "\<exists>batch. fetch ext ds ixs = Inr batch \<and>
       (ev \<in> set (fst (loop_body ext a dsn batch outs))
        \<or> (\<exists>outs'. ev \<in> set (fst (eval_loop ext a dsn ds rest outs'))))"
    by (auto dest!: events_io_bind)
  then obtain batch where
    f: "fetch ext ds ixs = Inr batch" and
    e: "ev \<in> set (fst (loop_body ext a dsn batch outs))
        \<or> (\<exists>outs'. ev \<in> set (fst (eval_loop ext a dsn ds rest outs')))"
    by blast
  from e consider "ev \<in> set (fst (loop_body ext a dsn batch outs))"
    | outs' where "ev \<in> set (fst (eval_loop ext a dsn ds rest outs'))"
    by blast
  then show ?case
  proof cases
    case 1
    from loop_body_events_mem[OF 1] f show ?thesis by auto
  next
    case 2
    from Cons.IH[OF 2] show ?thesis by auto
  qed
qed

lemma local_run_events:
  "ev \<in> set (fst (local_run ext a pg dsn)) \<Longrightarrow>
     (\<exists>c. ds_lookup dsn = Inr c \<and> ev = EOpenRead (dc_question c))
   \<or> (\<exists>px q0 gc. generation_config_of a dsn = Inr gc \<and> ev = EChat (a_template a) px q0 gc)"
proof -
  assume "ev \<in> set (fst (local_run ext a pg dsn))"
  then have "(\<exists>c. ds_lookup dsn = Inr c \<and> ev = EOpenRead (dc_question c))
    \<or> (\<exists>ds bs. ev \<in> set (fst (eval_loop ext a dsn ds bs [])))"
    unfolding local_run_def by (auto dest!: events_io_bind)
  then consider c where "ds_lookup dsn = Inr c" "ev = EOpenRead (dc_question c)"
    | ds bs where "ev \<in> set (fst (eval_loop ext a dsn ds bs []))"
    by blast
  then show ?thesis
  proof cases
    case 1 then show ?thesis by blast
  next
    case 2 from eval_loop_events[OF 2] show ?thesis by blast
  qed
qed

lemma evaluate_dataset_chat:
  assumes "EChat tmpl px q gc \<in> set (fst (evaluate_dataset ext a pg dsn))"
  shows "generation_config_of a dsn = Inr gc \<and> tmpl = a_template a"
proof -
  from assms have "EChat tmpl px q gc \<in> set (fst (local_run ext a pg dsn))"
    unfolding evaluate_dataset_def
    by (auto simp: fst_io_bind split: sum.splits if_splits)
  then show ?thesis by (auto dest!: local_run_events)
qed

lemma main_chat:
  assumes "EChat tmpl px q gc \<in> set (fst (main ext a))"
  shows "\<exists>dsn\<in>set (split_on CHR '','' (a_datasets a)). generation_config_of a dsn = Inr gc"
proof -
  from assms obtain pg where
    "EChat tmpl px q gc \<in> set (fst (evaluate_chat_model ext a (split_on CHR '','' (a_datasets a)) pg))"
    unfolding main_def
    by (auto simp: fst_io_bind split: sum.splits if_splits option.splits)
  then have "EChat tmpl px q gc \<in> set (fst (io_foreach (evaluate_dataset ext a pg) (split_on CHR '','' (a_datasets a))))"
    unfolding evaluate_chat_model_def
    by (auto simp: fst_io_bind split: sum.splits)
  then obtain dsn where "dsn \<in> set (split_on CHR '','' (a_datasets a))"
    and "EChat tmpl px q gc \<in> set (fst (evaluate_dataset ext a pg dsn))"
    by (auto dest!: events_io_foreach)
  then show ?thesis using evaluate_dataset_chat by blast
qed

text \<open>
  C6. In every run, every call of the model gets a generation configuration in which
  sampling is enabled exactly when the temperature argument is positive (so decoding is
  deterministic otherwise), the beam count and the temperature are those of the command
  line, the length penalty is 1, and the bounds on new tokens are those of the
  configuration of one of the named datasets.
\<close>

theorem generation_config_passed:
  assumes "EChat tmpl px q gc \<in> set (fst (main ext a))"
  shows "(gc_do_sample gc \<longleftrightarrow> float_gt_zero (a_temperature a))
     \<and> gc_num_beams gc = a_num_beams a
     \<and> gc_temperature gc = a_temperature a
     \<and> gc_length_penalty gc = 1
     \<and> (\<exists>ds_name c. ds_name \<in> set (split_on CHR '','' (a_datasets a))
            \<and> ds_collections ds_name = Some c
            \<and> gc_max_new_tokens gc = dc_max_new_tokens c
            \<and> gc_min_new_tokens gc = dc_min_new_tokens c)"
proof -
  from main_chat[OF assms] obtain dsn where
    d: "dsn \<in> set (split_on CHR '','' (a_datasets a))" and
    g: "generation_config_of a dsn = Inr gc" by blast
  from g obtain c where c: "ds_collections dsn = Some c"
    and gc: "gc = \<lparr>gc_num_beams = a_num_beams a,
          gc_max_new_tokens = dc_max_new_tokens c,
          gc_min_new_tokens = dc_min_new_tokens c,
          gc_length_penalty = 1,
          gc_do_sample = (if float_gt_zero (a_temperature a) then True else False),
          gc_temperature = a_temperature a\<rparr>"
    by (auto simp: generation_config_of_def ds_lookup_def bind_err_eq_Inr split: option.splits)
  from gc have "(gc_do_sample gc \<longleftrightarrow> float_gt_zero (a_temperature a))
     \<and> gc_num_beams gc = a_num_beams a
     \<and> gc_temperature gc = a_temperature a
     \<and> gc_length_penalty gc = 1
     \<and> gc_max_new_tokens gc = dc_max_new_tokens c
     \<and> gc_min_new_tokens gc = dc_min_new_tokens c" by simp
  with d c show ?thesis by blast
qed

lemma demo_main_chat:
  "EChat ''vicuna_v1.1'' [''data/pope/val2014/a.jpg''] ''Is there a dog? ''
    \<lparr>gc_num_beams = 5, gc_max_new_tokens = 100, gc_min_new_tokens = 1,
       gc_length_penalty = 1, gc_do_sample = False, gc_temperature = 0\<rparr>
   \<in> set (fst (main demo_ext demo_args))"
  by code_simp

lemma demo_main_chat_sampling:
  "EChat ''vicuna_v1.1'' [''data/pope/val2014/a.jpg''] ''Is there a dog? ''
    \<lparr>gc_num_beams = 5, gc_max_new_tokens = 100, gc_min_new_tokens = 1,
       gc_length_penalty = 1, gc_do_sample = True, gc_temperature = 0x3FE6666666666666\<rparr>
   \<in> set (fst (main demo_ext (demo_args\<lparr>a_temperature := 0x3FE6666666666666\<rparr>)))"
  by code_simp

theorem generation_config_passed_witness:
  "EChat ''vicuna_v1.1'' [''data/pope/val2014/a.jpg''] ''Is there a dog? ''
    \<lparr>gc_num_beams = 5, gc_max_new_tokens = 100, gc_min_new_tokens = 1,
       gc_length_penalty = 1, gc_do_sample = False, gc_temperature = 0\<rparr>
   \<in> set (fst (main demo_ext demo_args))
   \<and> \<not> float_gt_zero (a_temperature demo_args)
   \<and> EChat ''vicuna_v1.1'' [''data/pope/val2014/a.jpg''] ''Is there a dog? ''
    \<lparr>gc_num_beams = 5, gc_max_new_tokens = 100, gc_min_new_tokens = 1,
       gc_length_penalty = 1, gc_do_sample = True, gc_temperature = 0x3FE6666666666666\<rparr>
   \<in> set (fst (main demo_ext (demo_args\<lparr>a_temperature := 0x3FE6666666666666\<rparr>)))
   \<and> float_gt_zero (a_temperature (demo_args\<lparr>a_temperature := 0x3FE6666666666666\<rparr>))
   \<and> ds_collections ''pope'' = Some \<lparr>dc_root = ''data/pope/val2014'',
                    dc_question = ''data/pope/llava_pope_test.jsonl'',
                    dc_metric = None, dc_max_new_tokens = 100, dc_min_new_tokens = 1\<rparr>"
  using generation_config_passed[OF demo_main_chat]
    generation_config_passed[OF demo_main_chat_sampling]
    demo_main_chat demo_main_chat_sampling
  by (simp add: ds_collections_def demo_args_def float_gt_zero_def)

subsection \<open>The local list of a process\<close>

lemma loop_body_acc:
  "snd (loop_body ext a dsn batch outs) =
     bind_err (snd (loop_body ext a dsn batch [])) (\<lambda>news. Inr (outs @ news))"
  by (simp add: loop_body_result bind_err_assoc)

lemma snd_eval_loop_Cons:
  "snd (eval_loop ext a dsn ds (ixs # rest) outs) =
     bind_err (fetch ext ds ixs) (\<lambda>batch.
     bind_err (snd (loop_body ext a dsn batch outs)) (\<lambda>outs'.
     snd (eval_loop ext a dsn ds rest outs')))"
  by (simp add: snd_io_bind)

lemma eval_loop_acc:
  "snd (eval_loop ext a dsn ds bs outs) =
     bind_err (snd (eval_loop ext a dsn ds bs [])) (\<lambda>news. Inr (outs @ news))"
proof (induction bs arbitrary: outs)
  case Nil show ?case by simp
next
  case (Cons ixs rest)
  show ?case
  proof (cases "fetch ext ds ixs")
    case (Inl e) then show ?thesis by (simp add: snd_io_bind)
  next
    case (Inr batch)
    show ?thesis
    proof (cases "snd (loop_body ext a dsn batch [])")
      case (Inl e)
      then show ?thesis using Inr loop_body_acc[of ext a dsn batch outs]
        by (simp add: snd_io_bind)
    next
      case n: (Inr news)
      have 1: "snd (eval_loop ext a dsn ds (ixs # rest) outs) =
                 snd (eval_loop ext a dsn ds rest (outs @ news))"
        using Inr n loop_body_acc[of ext a dsn batch outs] by (simp add: snd_io_bind)
      have 2: "snd (eval_loop ext a dsn ds (ixs # rest) []) =
                 snd (eval_loop ext a dsn ds rest news)"
        using Inr n by (simp add: snd_io_bind)
      show ?thesis
        unfolding 1 2
        by (subst Cons.IH[of "outs @ news"], subst Cons.IH[of news])
           (cases "snd (eval_loop ext a dsn ds rest [])"; simp)
    qed
  qed
qed

lemma fetch_single:
  "fetch ext ds [i] =
     bind_err (getitem ext ds i) (\<lambda>it.
       Inr \<lparr>b_pixel_values = i_pixel_values it, b_questions = [i_question it],
            b_question_ids = [i_question_id it], b_annotations = [i_annotation it]\<rparr>)"
  by (cases "getitem ext ds i") (simp_all add: fetch_def collate_fn_def)

lemma eval_loop_singletons:
  "snd (eval_loop ext a dsn ds (map (\<lambda>i. [i]) ixs) []) =
     bind_err (mapM_err (\<lambda>i. bind_err (fetch ext ds [i])
                                 (\<lambda>batch. snd (loop_body ext a dsn batch []))) ixs)
              (\<lambda>lists. Inr (concat lists))"
proof (induction ixs)
  case Nil show ?case by simp
next
  case (Cons i ixs)
  show ?case
  proof (cases "fetch ext ds [i]")
    case (Inl e) then show ?thesis by (simp add: snd_io_bind)
  next
    case (Inr batch)
    show ?thesis
    proof (cases "snd (loop_body ext a dsn batch [])")
      case (Inl e) with Inr show ?thesis by (simp add: snd_io_bind)
    next
      case n: (Inr news)
      have "snd (eval_loop ext a dsn ds (map (\<lambda>i. [i]) (i # ixs)) []) =
              snd (eval_loop ext a dsn ds (map (\<lambda>i. [i]) ixs) news)"
        using Inr n by (simp add: snd_io_bind)
      also have "\<dots> = bind_err (snd (eval_loop ext a dsn ds (map (\<lambda>i. [i]) ixs) []))
                          (\<lambda>more. Inr (news @ more))"
        by (rule eval_loop_acc)
      finally show ?thesis
        using Inr n Cons.IH by (simp add: bind_err_assoc)
    qed
  qed
qed

lemma batch_sampler_one: "batch_sampler (Suc 0) [] ixs = map (\<lambda>i. [i]) ixs"
  by (induction ixs) simp_all

lemma local_outputs_unfold:
  "local_outputs ext a pg dsn =
     bind_err (ds_lookup dsn) (\<lambda>c.
     bind_err (VQADataset ext (dc_root c) (dc_question c) [] (image_size_of ext) (pad2square ext)) (\<lambda>ds.
     bind_err (InferenceSampler pg (dataset_len ds)) (\<lambda>smp.
     bind_err (DataLoader smp (a_batch_size a) (a_num_workers a)) (\<lambda>batches.
     snd (eval_loop ext a dsn ds batches [])))))"
  by (simp add: local_outputs_def local_run_def snd_io_bind)

lemma single_step:
  assumes "bind_err (fetch ext ds [i]) (\<lambda>batch. snd (loop_body ext a dsn batch [])) = Inr news"
  shows "\<exists>it gc pred. getitem ext ds i = Inr it \<and> generation_config_of a dsn = Inr gc
     \<and> model_chat ext (a_template a) (i_pixel_values it) (i_question it) gc = Inr pred
     \<and> news = [prediction (i_question_id it) pred (a_checkpoint a)]"
  using assms
  by (auto simp: fetch_single loop_body_result bind_err_eq_Inr py_index_def)

lemma singles_all2:
  assumes "mapM_err (\<lambda>i. bind_err (fetch ext ds [i])
                        (\<lambda>batch. snd (loop_body ext a dsn batch []))) ixs = Inr parts"
  shows "list_all2 (\<lambda>idx p. \<exists>it gc pred. getitem ext ds idx = Inr it
            \<and> generation_config_of a dsn = Inr gc
            \<and> model_chat ext (a_template a) (i_pixel_values it) (i_question it) gc = Inr pred
            \<and> p = prediction (i_question_id it) pred (a_checkpoint a)) ixs (concat parts)"
  using assms
proof (induction ixs arbitrary: parts)
  case Nil then show ?case by simp
next
  case (Cons i ixs)
  from Cons.prems obtain news rest where
    s: "bind_err (fetch ext ds [i]) (\<lambda>batch. snd (loop_body ext a dsn batch [])) = Inr news"
    and r: "mapM_err (\<lambda>i. bind_err (fetch ext ds [i])
                        (\<lambda>batch. snd (loop_body ext a dsn batch []))) ixs = Inr rest"
    and l: "parts = news # rest"
    by (auto simp: bind_err_eq_Inr)
  from single_step[OF s] Cons.IH[OF r] l show ?case by auto
qed



subsection \<open>Gathering in rank order\<close>

lemma concat_in_rank_order_Inl: "concat_in_rank_order (Inl e # rs) = Inl e"
  by (simp add: concat_in_rank_order_def)

lemma concat_in_rank_order_map:
  "concat_in_rank_order
     (map (\<lambda>ixs. bind_err (mapM_err f ixs) (\<lambda>lists. Inr (concat lists))) shards)
   = bind_err (mapM_err f (concat shards)) (\<lambda>lists. Inr (concat lists))"
proof (induction shards)
  case Nil show ?case by (simp add: concat_in_rank_order_def)
next
  case (Cons s shards)
  have c: "concat_in_rank_order (r # rs) =
          bind_err r (\<lambda>x. bind_err (concat_in_rank_order rs) (\<lambda>y. Inr (x @ y)))"
    for r :: "py_error + 'c list" and rs
    by (cases r; cases "mapM_err (\<lambda>r. r) rs") (simp_all add: concat_in_rank_order_def)
  show ?case
    by (cases "mapM_err f s"; cases "mapM_err f (concat shards)")
       (simp_all add: c Cons.IH mapM_err_append)
qed

lemma sampler_shard:
  assumes "0 < n" "1 \<le> w" "0 \<le> r" "r < w"
  shows "InferenceSampler \<lparr>pg_rank = r, pg_world_size = w\<rparr> n =
           Inr \<lparr>s_size = n, s_rank = r, s_world_size = w,
                s_local_indices = py_range (shard_bound n w r) (shard_bound n w (r + 1))\<rparr>"
  using assms by (simp add: InferenceSampler_def get_local_indices_eq)

lemma single_process_sampler:
  assumes "InferenceSampler \<lparr>pg_rank = 0, pg_world_size = 1\<rparr> n = Inr smp"
  shows "sampler_iter smp = py_range 0 n"
proof -
  from assms have n: "0 < n" by (auto simp: InferenceSampler_def split: if_splits)
  from sampler_shard[OF n order_refl order_refl] assms
  show ?thesis by (auto simp: sampler_iter_def shard_bound_0 shard_bound_w)
qed

lemma rank_outputs_batch_one:
  assumes "1 \<le> w" "a_batch_size a = 1"
    and nw: "0 \<le> a_num_workers a"
    and c: "ds_lookup dsn = Inr c"
    and d: "VQADataset ext (dc_root c) (dc_question c) [] (image_size_of ext) (pad2square ext) = Inr ds"
    and n: "0 < dataset_len ds"
  shows "rank_outputs ext a w dsn =
     map (\<lambda>ixs. bind_err (mapM_err (\<lambda>i. bind_err (fetch ext ds [i])
                                 (\<lambda>batch. snd (loop_body ext a dsn batch []))) ixs)
              (\<lambda>lists. Inr (concat lists)))
         (map (\<lambda>r. py_range (shard_bound (dataset_len ds) w r) (shard_bound (dataset_len ds) w (r + 1)))
              (map int [0..<nat w]))"
proof -
  have "local_outputs ext a \<lparr>pg_rank = int k, pg_world_size = w\<rparr> dsn =
      bind_err (mapM_err (\<lambda>i. bind_err (fetch ext ds [i])
                                 (\<lambda>batch. snd (loop_body ext a dsn batch []))) 
                  (py_range (shard_bound (dataset_len ds) w (int k)) (shard_bound (dataset_len ds) w (int k + 1))))
              (\<lambda>lists. Inr (concat lists))" if "k < nat w" for k
  proof -
    have r: "0 \<le> int k" "int k < w" using that by simp_all
    show ?thesis
      unfolding local_outputs_unfold
      using c d nw assms(2) sampler_shard[OF n assms(1) r]
      by (simp add: DataLoader_def sampler_iter_def batch_sampler_one eval_loop_singletons)
  qed
  then show ?thesis
    using assms(1) by (simp add: rank_outputs_def py_range_0)
qed

lemma local_concat_eq_single:
  assumes w: "1 \<le> w" and b: "a_batch_size a = 1"
  shows "concat_in_rank_order (rank_outputs ext a w dsn) =
           local_outputs ext a \<lparr>pg_rank = 0, pg_world_size = 1\<rparr> dsn"
proof -
  have hd: "rank_outputs ext a w dsn =
       local_outputs ext a \<lparr>pg_rank = 0, pg_world_size = w\<rparr> dsn #
       map (\<lambda>r. local_outputs ext a \<lparr>pg_rank = r, pg_world_size = w\<rparr> dsn) (py_range 1 w)"
    using w by (simp add: rank_outputs_def py_range_0_Cons)
  show ?thesis
  proof (cases "ds_lookup dsn")
    case (Inl e)
    then show ?thesis unfolding hd by (simp add: local_outputs_unfold concat_in_rank_order_Inl)
  next
    case c: (Inr c)
    show ?thesis
    proof (cases "VQADataset ext (dc_root c) (dc_question c) [] (image_size_of ext) (pad2square ext)")
      case (Inl e)
      then show ?thesis unfolding hd using c
        by (simp add: local_outputs_unfold concat_in_rank_order_Inl)
    next
      case d: (Inr ds)
      show ?thesis
      proof (cases "0 < dataset_len ds")
        case False
        then show ?thesis unfolding hd using c d
          by (simp add: local_outputs_unfold concat_in_rank_order_Inl InferenceSampler_def)
      next
        case True
        show ?thesis
        proof (cases "0 \<le> a_num_workers a")
          case False
          have "local_outputs ext a \<lparr>pg_rank = 0, pg_world_size = v\<rparr> dsn = Inl ValueError"
            if "1 \<le> v" for v
            unfolding local_outputs_unfold
            using c d False sampler_shard[OF True that order_refl] that
            by (simp add: DataLoader_def)
          from this[OF w] this[OF order_refl] show ?thesis
            unfolding hd by (simp add: concat_in_rank_order_Inl)
        next
          case nw: True
          have one: "rank_outputs ext a 1 dsn = [local_outputs ext a \<lparr>pg_rank = 0, pg_world_size = 1\<rparr> dsn]"
            by (simp add: rank_outputs_def py_range_def)
          have n0: "0 \<le> dataset_len ds" using True by simp
          have "concat_in_rank_order (rank_outputs ext a w dsn) =
                  concat_in_rank_order (rank_outputs ext a 1 dsn)"
            unfolding rank_outputs_batch_one[OF w b nw c d True]
              rank_outputs_batch_one[OF order_refl b nw c d True]
              concat_in_rank_order_map concat_shards[OF n0 w] concat_shards[OF n0 order_refl]
            by (rule refl)
          also have "\<dots> = local_outputs ext a \<lparr>pg_rank = 0, pg_world_size = 1\<rparr> dsn"
            unfolding one
            by (cases "local_outputs ext a \<lparr>pg_rank = 0, pg_world_size = 1\<rparr> dsn")
               (simp_all add: concat_in_rank_order_def)
          finally show ?thesis .
        qed
      qed
    qed
  qed
qed

lemma merged_under_roundtrip:
  assumes "\<forall>outs. Inr outs \<in> set rs \<longrightarrow> loads (dumps (JList outs)) = Inr (JList outs)"
  shows "bind_err (mapM_err (\<lambda>r. bind_err r (\<lambda>outputs. Inr (dumps (JList outputs)))) rs)
           (\<lambda>gathered. bind_err (mapM_err loads gathered) chain_from_iterable)
         = concat_in_rank_order rs"
proof -
  have "bind_err (mapM_err (\<lambda>r. bind_err r (\<lambda>outputs. Inr (dumps (JList outputs)))) rs)
           (\<lambda>gathered. bind_err (mapM_err loads gathered) (mapM_err py_iter))
         = mapM_err (\<lambda>r. r) rs"
    using assms
  proof (induction rs)
    case Nil show ?case by simp
  next
    case (Cons r rs)
    show ?case
    proof (cases r)
      case (Inl e) then show ?thesis by simp
    next
      case (Inr outs)
      then have rt: "loads (dumps (JList outs)) = Inr (JList outs)" using Cons.prems by simp
      have ih: "bind_err (mapM_err (\<lambda>r. bind_err r (\<lambda>outputs. Inr (dumps (JList outputs)))) rs)
           (\<lambda>gathered. bind_err (mapM_err loads gathered) (mapM_err py_iter))
         = mapM_err (\<lambda>r. r) rs"
        using Cons by simp
      show ?thesis
      proof (cases "mapM_err (\<lambda>r. bind_err r (\<lambda>outputs. Inr (dumps (JList outputs)))) rs")
        case (Inl e)
        with ih have "mapM_err (\<lambda>r. r) rs = Inl e" by simp
        with Inl Inr show ?thesis by simp
      next
        case g: (Inr gathered)
        with ih have "mapM_err (\<lambda>r. r) rs =
            bind_err (mapM_err loads gathered) (mapM_err py_iter)" by simp
        with g Inr rt show ?thesis
          by (cases "mapM_err loads gathered") auto
      qed
    qed
  qed
  then show ?thesis
    unfolding concat_in_rank_order_def chain_from_iterable_def
    by (simp add: bind_err_assoc[symmetric])
qed

text \<open>
  C2. For a job of at least one process with batch size 1 (the only one the script
  accepts), the local prediction lists of the ranks, concatenated in increasing rank
  order, are the list a single process produces on the whole dataset; if a record makes
  a rank fail, the single process fails with the same exception. The list the script
  builds after the gather (lines 151 to 155) is that concatenation whenever the JSON
  round trip gives back each local list.
\<close>

theorem gather_matches_single_process:
  assumes "1 \<le> world_size" and "a_batch_size a = 1"
  shows "concat_in_rank_order (rank_outputs ext a world_size ds_name)
           = local_outputs ext a \<lparr>pg_rank = 0, pg_world_size = 1\<rparr> ds_name
     \<and> ((\<forall>outs. Inr outs \<in> set (rank_outputs ext a world_size ds_name) \<longrightarrow>
            json_loads ext (json_dumps ext (JList outs)) = Inr (JList outs)) \<longrightarrow>
          merged_outputs ext a world_size ds_name
            = local_outputs ext a \<lparr>pg_rank = 0, pg_world_size = 1\<rparr> ds_name)"
proof (intro conjI impI)
  show c: "concat_in_rank_order (rank_outputs ext a world_size ds_name)
           = local_outputs ext a \<lparr>pg_rank = 0, pg_world_size = 1\<rparr> ds_name"
    using assms by (rule local_concat_eq_single)
  assume rt: "\<forall>outs. Inr outs \<in> set (rank_outputs ext a world_size ds_name) \<longrightarrow>
            json_loads ext (json_dumps ext (JList outs)) = Inr (JList outs)"
  have "merged_outputs ext a world_size ds_name
          = concat_in_rank_order (rank_outputs ext a world_size ds_name)"
    unfolding merged_outputs_def all_gather_object_def
    using rt by (rule merged_under_roundtrip)
  with c show "merged_outputs ext a world_size ds_name
            = local_outputs ext a \<lparr>pg_rank = 0, pg_world_size = 1\<rparr> ds_name"
    by simp
qed

lemma demo_rank_outputs:
  "rank_outputs demo_ext demo_args 2 ''pope'' =
     [Inr [demo_pred 1 ''yes'', demo_pred 2 ''no''], Inr [demo_pred 3 ''no'']]"
  by code_simp

theorem gather_matches_single_process_witness:
  "(1::int) \<le> 2 \<and> a_batch_size demo_args = 1
   \<and> rank_outputs demo_ext demo_args 2 ''pope'' =
        [Inr [demo_pred 1 ''yes'', demo_pred 2 ''no''], Inr [demo_pred 3 ''no'']]
   \<and> local_outputs demo_ext demo_args \<lparr>pg_rank = 0, pg_world_size = 1\<rparr> ''pope'' =
        Inr [demo_pred 1 ''yes'', demo_pred 2 ''no'', demo_pred 3 ''no'']
   \<and> merged_outputs demo_ext demo_args 2 ''pope'' =
        Inr [demo_pred 1 ''yes'', demo_pred 2 ''no'', demo_pred 3 ''no'']"
proof -
  have b: "a_batch_size demo_args = 1" by (simp add: demo_args_def)
  have rt: "\<forall>outs. Inr outs \<in> set (rank_outputs demo_ext demo_args 2 ''pope'') \<longrightarrow>
            json_loads demo_ext (json_dumps demo_ext (JList outs)) = Inr (JList outs)"
    unfolding demo_rank_outputs
    by (simp add: demo_ext_def demo_loads_def demo_dumps_def demo_pred_def prediction_def)
  from gather_matches_single_process[of 2 demo_args demo_ext "''pope''"] b rt
  have "concat_in_rank_order (rank_outputs demo_ext demo_args 2 ''pope'')
           = local_outputs demo_ext demo_args \<lparr>pg_rank = 0, pg_world_size = 1\<rparr> ''pope''"
    and "merged_outputs demo_ext demo_args 2 ''pope''
            = local_outputs demo_ext demo_args \<lparr>pg_rank = 0, pg_world_size = 1\<rparr> ''pope''"
    by simp_all
  then show ?thesis
    using b by (simp add: demo_rank_outputs concat_in_rank_order_def)
qed

subsection \<open>The shape of a prediction and the results file\<close>

lemma evaluate_dataset_write:
  assumes "pg_rank pg = 0" and "snd (evaluate_dataset ext a pg dsn) = Inr ()"
  shows "\<exists>merged. merged_outputs ext a (pg_world_size pg) dsn = Inr merged
     \<and> EWrite (results_path ext a dsn) (json_dumps ext (JList merged))
          \<in> set (fst (evaluate_dataset ext a pg dsn))"
proof -
  from assms(2) obtain outs merged where
    l: "snd (local_run ext a pg dsn) = Inr outs" and
    m: "merged_outputs ext a (pg_world_size pg) dsn = Inr merged"
    unfolding evaluate_dataset_def snd_io_bind bind_err_eq_Inr by auto
  have "EWrite (results_path ext a dsn) (json_dumps ext (JList merged))
          \<in> set (fst (evaluate_dataset ext a pg dsn))"
    unfolding evaluate_dataset_def using l m assms(1)
    by (simp add: fst_io_bind)
  with m show ?thesis by blast
qed

lemma batch_sampler_nonempty: "ixs \<in> set (batch_sampler b acc xs) \<Longrightarrow> ixs \<noteq> []"
  by (induction xs arbitrary: acc) (auto split: if_splits)

lemma fetch_Cons:
  assumes "fetch ext ds (i # rest) = Inr batch"
  shows "\<exists>it. getitem ext ds i = Inr it
     \<and> py_index (b_questions batch) 0 = Inr (i_question it)
     \<and> take (min 1 (length (b_annotations batch))) (b_question_ids batch) = [i_question_id it]"
proof -
  from assms obtain it its where
    g: "getitem ext ds i = Inr it" and
    b: "collate_fn (it # its) = Inr batch"
    by (auto simp: fetch_def bind_err_eq_Inr)
  from b have "b_questions batch = i_question it # map i_question its"
    and "b_question_ids batch = i_question_id it # map i_question_id its"
    and "b_annotations batch = i_annotation it # map i_annotation its"
    by (auto simp: collate_fn_def)
  with g show ?thesis by (simp add: py_index_def)
qed

lemma eval_loop_batches_tied:
  assumes "snd (eval_loop ext a dsn ds bs outs) = Inr outs'"
    and "\<forall>ixs\<in>set bs. ixs \<noteq> []"
    and "generation_config_of a dsn = Inr gc"
  shows "\<exists>news. outs' = outs @ news \<and>
     list_all2 (\<lambda>ixs p. \<exists>batch it pred. ixs \<noteq> [] \<and> fetch ext ds ixs = Inr batch
                  \<and> getitem ext ds (hd ixs) = Inr it
                  \<and> model_chat ext (a_template a) (b_pixel_values batch) (i_question it) gc
                      = Inr pred
                  \<and> p = prediction (i_question_id it) pred (a_checkpoint a)) bs news"
  using assms(1,2)
proof (induction bs arbitrary: outs)
  case Nil then show ?case by simp
next
  case (Cons ixs rest)
  from Cons.prems(2) obtain i more where ix: "ixs = i # more" by (cases ixs) auto
  from Cons.prems(1) obtain batch outs1 where
    f: "fetch ext ds ixs = Inr batch" and
    b: "snd (loop_body ext a dsn batch outs) = Inr outs1" and
    r: "snd (eval_loop ext a dsn ds rest outs1) = Inr outs'"
    unfolding snd_eval_loop_Cons bind_err_eq_Inr by blast
  from fetch_Cons[OF f[unfolded ix]] obtain it where
    g: "getitem ext ds i = Inr it" and
    q: "py_index (b_questions batch) 0 = Inr (i_question it)" and
    t: "take (min 1 (length (b_annotations batch))) (b_question_ids batch) = [i_question_id it]"
    by blast
  from b q t assms(3) obtain pred where
    p: "model_chat ext (a_template a) (b_pixel_values batch) (i_question it) gc = Inr pred" and
    o: "outs1 = outs @ [prediction (i_question_id it) pred (a_checkpoint a)]"
    unfolding loop_body_result by (auto simp: bind_err_eq_Inr)
  from Cons.prems(2) have "\<forall>ixs\<in>set rest. ixs \<noteq> []" by simp
  from Cons.IH[OF r this] obtain news where
    n: "outs' = outs1 @ news" and
    l: "list_all2 (\<lambda>ixs p. \<exists>batch it pred. ixs \<noteq> [] \<and> fetch ext ds ixs = Inr batch
                  \<and> getitem ext ds (hd ixs) = Inr it
                  \<and> model_chat ext (a_template a) (b_pixel_values batch) (i_question it) gc
                      = Inr pred
                  \<and> p = prediction (i_question_id it) pred (a_checkpoint a)) rest news"
    by blast
  show ?case
    apply (rule exI[of _ "prediction (i_question_id it) pred (a_checkpoint a) # news"])
    using n o l f g p ix by auto
qed

lemma local_outputs_batches_tied:
  assumes "local_outputs ext a pg dsn = Inr outs"
  shows "\<exists>c ds smp gc batches. ds_lookup dsn = Inr c
     \<and> VQADataset ext (dc_root c) (dc_question c) [] (image_size_of ext) (pad2square ext) = Inr ds
     \<and> InferenceSampler pg (dataset_len ds) = Inr smp
     \<and> generation_config_of a dsn = Inr gc
     \<and> DataLoader smp (a_batch_size a) (a_num_workers a) = Inr batches
     \<and> list_all2 (\<lambda>ixs p. \<exists>batch it pred. ixs \<noteq> [] \<and> fetch ext ds ixs = Inr batch
                  \<and> getitem ext ds (hd ixs) = Inr it
                  \<and> model_chat ext (a_template a) (b_pixel_values batch) (i_question it) gc
                      = Inr pred
                  \<and> p = prediction (i_question_id it) pred (a_checkpoint a)) batches outs"
proof -
  from assms obtain c ds smp batches where
    c: "ds_lookup dsn = Inr c" and
    d: "VQADataset ext (dc_root c) (dc_question c) [] (image_size_of ext) (pad2square ext) = Inr ds" and
    s: "InferenceSampler pg (dataset_len ds) = Inr smp" and
    l: "DataLoader smp (a_batch_size a) (a_num_workers a) = Inr batches" and
    e: "snd (eval_loop ext a dsn ds batches []) = Inr outs"
    unfolding local_outputs_unfold bind_err_eq_Inr by blast
  from c obtain gc where g: "generation_config_of a dsn = Inr gc"
    by (simp add: generation_config_of_def)
  from l have ne: "\<forall>ixs\<in>set batches. ixs \<noteq> []"
    by (auto simp: DataLoader_def split: if_splits dest: batch_sampler_nonempty)
  from eval_loop_batches_tied[OF e ne g] c d s g l show ?thesis by auto
qed

lemma local_outputs_records_tied:
  assumes b: "a_batch_size a = 1" and o: "local_outputs ext a pg dsn = Inr outs"
  shows "\<exists>c ds smp gc. ds_lookup dsn = Inr c
     \<and> VQADataset ext (dc_root c) (dc_question c) [] (image_size_of ext) (pad2square ext) = Inr ds
     \<and> InferenceSampler pg (dataset_len ds) = Inr smp
     \<and> generation_config_of a dsn = Inr gc
     \<and> list_all2 (\<lambda>idx p. \<exists>it pred. getitem ext ds idx = Inr it
                  \<and> model_chat ext (a_template a) (i_pixel_values it) (i_question it) gc
                      = Inr pred
                  \<and> p = prediction (i_question_id it) pred (a_checkpoint a))
           (sampler_iter smp) outs"
proof -
  from o obtain c ds smp where
    c: "ds_lookup dsn = Inr c" and
    d: "VQADataset ext (dc_root c) (dc_question c) [] (image_size_of ext) (pad2square ext) = Inr ds" and
    s: "InferenceSampler pg (dataset_len ds) = Inr smp" and
    e: "snd (eval_loop ext a dsn ds (map (\<lambda>i. [i]) (sampler_iter smp)) []) = Inr outs"
    unfolding local_outputs_unfold bind_err_eq_Inr
    by (auto simp: DataLoader_def b batch_sampler_one split: if_splits)
  from c obtain gc where g: "generation_config_of a dsn = Inr gc"
    by (simp add: generation_config_of_def)
  from e obtain parts where
    m: "mapM_err (\<lambda>i. bind_err (fetch ext ds [i])
                        (\<lambda>batch. snd (loop_body ext a dsn batch []))) (sampler_iter smp) = Inr parts"
    and l: "outs = concat parts"
    unfolding eval_loop_singletons bind_err_eq_Inr by auto
  have "list_all2 (\<lambda>idx p. \<exists>it pred. getitem ext ds idx = Inr it
                  \<and> model_chat ext (a_template a) (i_pixel_values it) (i_question it) gc
                      = Inr pred
                  \<and> p = prediction (i_question_id it) pred (a_checkpoint a))
           (sampler_iter smp) outs"
    using singles_all2[OF m] g unfolding l
    by (auto elim!: list_all2_mono)
  with c d s g show ?thesis by blast
qed

text \<open>
  C8. The local list of a process has one prediction per batch of its loader, in
  order: an object with exactly the fields \<open>question_id\<close>, \<open>text\<close>, \<open>model_id\<close> and
  \<open>metadata\<close>, in this order, holding the identifier of the batch's first record, the
  text the model returned for that record's question and the batch's pixel values, the
  checkpoint argument and the empty object. With batch size 1, the only one the script
  accepts, there is one such object for every index of the shard, in order, and it
  holds the identifier of the record at that index and the text generated for the
  question and the image of that very record. On rank 0 a successful pass writes, to
  the results path, the serialisation of the merged list, a JSON array; with batch size
  1, and when the JSON round trip gives back each local list, the merged list has one
  such object for every record of the dataset, in the order of the question file.
\<close>

theorem prediction_fields:
  "(\<forall>outs. local_outputs ext a pg ds_name = Inr outs \<longrightarrow>
      (\<exists>c ds smp gc batches. ds_lookup ds_name = Inr c
           \<and> VQADataset ext (dc_root c) (dc_question c) [] (image_size_of ext) (pad2square ext)
               = Inr ds
           \<and> InferenceSampler pg (dataset_len ds) = Inr smp
           \<and> generation_config_of a ds_name = Inr gc
           \<and> DataLoader smp (a_batch_size a) (a_num_workers a) = Inr batches
           \<and> list_all2 (\<lambda>ixs p. \<exists>batch it pred. ixs \<noteq> [] \<and> fetch ext ds ixs = Inr batch
                  \<and> getitem ext ds (hd ixs) = Inr it
                  \<and> model_chat ext (a_template a) (b_pixel_values batch) (i_question it) gc
                      = Inr pred
                  \<and> p = JDict [(''question_id'', i_question_id it),
                               (''text'', JStr pred),
                               (''model_id'', JStr (a_checkpoint a)),
                               (''metadata'', JDict [])])
                batches outs))
   \<and> (\<forall>outs. a_batch_size a = 1 \<and> local_outputs ext a pg ds_name = Inr outs \<longrightarrow>
      (\<exists>c ds smp gc. ds_lookup ds_name = Inr c
           \<and> VQADataset ext (dc_root c) (dc_question c) [] (image_size_of ext) (pad2square ext)
               = Inr ds
           \<and> InferenceSampler pg (dataset_len ds) = Inr smp
           \<and> generation_config_of a ds_name = Inr gc
           \<and> list_all2 (\<lambda>idx p. \<exists>it pred. getitem ext ds idx = Inr it
                  \<and> model_chat ext (a_template a) (i_pixel_values it) (i_question it) gc
                      = Inr pred
                  \<and> p = JDict [(''question_id'', i_question_id it),
                               (''text'', JStr pred),
                               (''model_id'', JStr (a_checkpoint a)),
                               (''metadata'', JDict [])])
                (sampler_iter smp) outs))
   \<and> (pg_rank pg = 0 \<and> snd (evaluate_dataset ext a pg ds_name) = Inr () \<longrightarrow>
      (\<exists>merged. merged_outputs ext a (pg_world_size pg) ds_name = Inr merged
         \<and> EWrite (results_path ext a ds_name) (json_dumps ext (JList merged))
              \<in> set (fst (evaluate_dataset ext a pg ds_name))))
   \<and> (\<forall>merged. a_batch_size a = 1 \<and> 1 \<le> pg_world_size pg
          \<and> merged_outputs ext a (pg_world_size pg) ds_name = Inr merged
          \<and> (\<forall>outs. Inr outs \<in> set (rank_outputs ext a (pg_world_size pg) ds_name) \<longrightarrow>
               json_loads ext (json_dumps ext (JList outs)) = Inr (JList outs)) \<longrightarrow>
      (\<exists>c ds gc. ds_lookup ds_name = Inr c
           \<and> VQADataset ext (dc_root c) (dc_question c) [] (image_size_of ext) (pad2square ext)
               = Inr ds
           \<and> generation_config_of a ds_name = Inr gc
           \<and> list_all2 (\<lambda>idx p. \<exists>it pred. getitem ext ds idx = Inr it
                  \<and> model_chat ext (a_template a) (i_pixel_values it) (i_question it) gc
                      = Inr pred
                  \<and> p = JDict [(''question_id'', i_question_id it),
                               (''text'', JStr pred),
                               (''model_id'', JStr (a_checkpoint a)),
                               (''metadata'', JDict [])])
                (py_range 0 (dataset_len ds)) merged))"
proof (intro conjI allI impI)
  fix outs
  assume "local_outputs ext a pg ds_name = Inr outs"
  from local_outputs_batches_tied[OF this]
  show "\<exists>c ds smp gc batches. ds_lookup ds_name = Inr c
           \<and> VQADataset ext (dc_root c) (dc_question c) [] (image_size_of ext) (pad2square ext)
               = Inr ds
           \<and> InferenceSampler pg (dataset_len ds) = Inr smp
           \<and> generation_config_of a ds_name = Inr gc
           \<and> DataLoader smp (a_batch_size a) (a_num_workers a) = Inr batches
           \<and> list_all2 (\<lambda>ixs p. \<exists>batch it pred. ixs \<noteq> [] \<and> fetch ext ds ixs = Inr batch
                  \<and> getitem ext ds (hd ixs) = Inr it
                  \<and> model_chat ext (a_template a) (b_pixel_values batch) (i_question it) gc
                      = Inr pred
                  \<and> p = JDict [(''question_id'', i_question_id it),
                               (''text'', JStr pred),
                               (''model_id'', JStr (a_checkpoint a)),
                               (''metadata'', JDict [])])
                batches outs"
    by (simp add: prediction_def)
next
  fix outs
  assume "a_batch_size a = 1 \<and> local_outputs ext a pg ds_name = Inr outs"
  then have "a_batch_size a = 1" and "local_outputs ext a pg ds_name = Inr outs" by simp_all
  from local_outputs_records_tied[OF this]
  show "\<exists>c ds smp gc. ds_lookup ds_name = Inr c
           \<and> VQADataset ext (dc_root c) (dc_question c) [] (image_size_of ext) (pad2square ext)
               = Inr ds
           \<and> InferenceSampler pg (dataset_len ds) = Inr smp
           \<and> generation_config_of a ds_name = Inr gc
           \<and> list_all2 (\<lambda>idx p. \<exists>it pred. getitem ext ds idx = Inr it
                  \<and> model_chat ext (a_template a) (i_pixel_values it) (i_question it) gc
                      = Inr pred
                  \<and> p = JDict [(''question_id'', i_question_id it),
                               (''text'', JStr pred),
                               (''model_id'', JStr (a_checkpoint a)),
                               (''metadata'', JDict [])])
                (sampler_iter smp) outs"
    by (simp add: prediction_def)
next
  assume "pg_rank pg = 0 \<and> snd (evaluate_dataset ext a pg ds_name) = Inr ()"
  then show "\<exists>merged. merged_outputs ext a (pg_world_size pg) ds_name = Inr merged
         \<and> EWrite (results_path ext a ds_name) (json_dumps ext (JList merged))
              \<in> set (fst (evaluate_dataset ext a pg ds_name))"
    using evaluate_dataset_write by blast
next
  fix merged
  assume h: "a_batch_size a = 1 \<and> 1 \<le> pg_world_size pg
          \<and> merged_outputs ext a (pg_world_size pg) ds_name = Inr merged
          \<and> (\<forall>outs. Inr outs \<in> set (rank_outputs ext a (pg_world_size pg) ds_name) \<longrightarrow>
               json_loads ext (json_dumps ext (JList outs)) = Inr (JList outs))"
  then have b: "a_batch_size a = 1" and w: "1 \<le> pg_world_size pg"
    and m: "merged_outputs ext a (pg_world_size pg) ds_name = Inr merged"
    and rt: "\<forall>outs. Inr outs \<in> set (rank_outputs ext a (pg_world_size pg) ds_name) \<longrightarrow>
               json_loads ext (json_dumps ext (JList outs)) = Inr (JList outs)"
    by simp_all
  have "merged_outputs ext a (pg_world_size pg) ds_name
          = concat_in_rank_order (rank_outputs ext a (pg_world_size pg) ds_name)"
    unfolding merged_outputs_def all_gather_object_def
    using rt by (rule merged_under_roundtrip)
  also have "\<dots> = local_outputs ext a \<lparr>pg_rank = 0, pg_world_size = 1\<rparr> ds_name"
    using w b by (rule local_concat_eq_single)
  finally have "local_outputs ext a \<lparr>pg_rank = 0, pg_world_size = 1\<rparr> ds_name = Inr merged"
    using m by simp
  from local_outputs_records_tied[OF b this] obtain c ds smp gc where
    c: "ds_lookup ds_name = Inr c" and
    d: "VQADataset ext (dc_root c) (dc_question c) [] (image_size_of ext) (pad2square ext) = Inr ds" and
    s: "InferenceSampler \<lparr>pg_rank = 0, pg_world_size = 1\<rparr> (dataset_len ds) = Inr smp" and
    g: "generation_config_of a ds_name = Inr gc" and
    l: "list_all2 (\<lambda>idx p. \<exists>it pred. getitem ext ds idx = Inr it
                  \<and> model_chat ext (a_template a) (i_pixel_values it) (i_question it) gc
                      = Inr pred
                  \<and> p = prediction (i_question_id it) pred (a_checkpoint a))
           (sampler_iter smp) merged"
    by blast
  from l have "list_all2 (\<lambda>idx p. \<exists>it pred. getitem ext ds idx = Inr it
                  \<and> model_chat ext (a_template a) (i_pixel_values it) (i_question it) gc
                      = Inr pred
                  \<and> p = JDict [(''question_id'', i_question_id it),
                               (''text'', JStr pred),
                               (''model_id'', JStr (a_checkpoint a)),
                               (''metadata'', JDict [])])
                (py_range 0 (dataset_len ds)) merged"
    unfolding single_process_sampler[OF s] by (simp add: prediction_def)
  with c d g show "\<exists>c ds gc. ds_lookup ds_name = Inr c
           \<and> VQADataset ext (dc_root c) (dc_question c) [] (image_size_of ext) (pad2square ext)
               = Inr ds
           \<and> generation_config_of a ds_name = Inr gc
           \<and> list_all2 (\<lambda>idx p. \<exists>it pred. getitem ext ds idx = Inr it
                  \<and> model_chat ext (a_template a) (i_pixel_values it) (i_question it) gc
                      = Inr pred
                  \<and> p = JDict [(''question_id'', i_question_id it),
                               (''text'', JStr pred),
                               (''model_id'', JStr (a_checkpoint a)),
                               (''metadata'', JDict [])])
                (py_range 0 (dataset_len ds)) merged"
    by blast
qed

lemma demo_evaluate_dataset:
  "evaluate_dataset demo_ext demo_args \<lparr>pg_rank = 0, pg_world_size = 2\<rparr> ''pope'' =
   ([EOpenRead ''data/pope/llava_pope_test.jsonl'',
     EChat ''vicuna_v1.1'' [''data/pope/val2014/a.jpg''] ''Is there a dog? ''
      \<lparr>gc_num_beams = 5, gc_max_new_tokens = 100, gc_min_new_tokens = 1,
         gc_length_penalty = 1, gc_do_sample = False, gc_temperature = 0\<rparr>,
     EChat ''vicuna_v1.1'' [''data/pope/val2014/b.jpg''] ''Is there a cat? ''
      \<lparr>gc_num_beams = 5, gc_max_new_tokens = 100, gc_min_new_tokens = 1,
         gc_length_penalty = 1, gc_do_sample = False, gc_temperature = 0\<rparr>,
     EBarrier, EAllGather ''[1:yes,2:no]'', EPrint ''Evaluating pope ...'',
     EWrite ''results/pope_261103120000.json'' ''[1:yes,2:no,3:no]'',
     EPrint ''Results saved to results/pope_261103120000.json'',
     EPrint (scoring_cmd ''results/pope_261103120000.json''),
     ESystem (scoring_cmd ''results/pope_261103120000.json'')],
    Inr ())"
  by code_simp

lemma demo_local_outputs:
  "local_outputs demo_ext demo_args \<lparr>pg_rank = 0, pg_world_size = 2\<rparr> ''pope'' =
     Inr [JDict [(''question_id'', JInt 1), (''text'', JStr ''yes''),
                 (''model_id'', JStr ''ckpt''), (''metadata'', JDict [])],
          JDict [(''question_id'', JInt 2), (''text'', JStr ''no''),
                 (''model_id'', JStr ''ckpt''), (''metadata'', JDict [])]]"
  by code_simp

lemma demo_roundtrip:
  "\<forall>outs. Inr outs \<in> set (rank_outputs demo_ext demo_args 2 ''pope'') \<longrightarrow>
     json_loads demo_ext (json_dumps demo_ext (JList outs)) = Inr (JList outs)"
  unfolding demo_rank_outputs
  by (simp add: demo_ext_def demo_loads_def demo_dumps_def demo_pred_def prediction_def)

lemma demo_merged_outputs:
  "merged_outputs demo_ext demo_args 2 ''pope'' =
     Inr [demo_pred 1 ''yes'', demo_pred 2 ''no'', demo_pred 3 ''no'']"
  by code_simp

lemma demo_third_record:
  "getitem demo_ext (demo_dataset\<lparr>ds_prompt := []\<rparr>) 2
     = Inr \<lparr>i_question_id = JInt 3, i_question = ''Is there a car? '',
            i_pixel_values = [''data/pope/val2014/c.jpg''], i_annotation = JNull\<rparr>"
  by code_simp

theorem prediction_fields_witness:
  "a_batch_size demo_args = 1
   \<and> local_outputs demo_ext demo_args \<lparr>pg_rank = 0, pg_world_size = 2\<rparr> ''pope'' =
       Inr [JDict [(''question_id'', JInt 1), (''text'', JStr ''yes''),
                   (''model_id'', JStr ''ckpt''), (''metadata'', JDict [])],
            JDict [(''question_id'', JInt 2), (''text'', JStr ''no''),
                   (''model_id'', JStr ''ckpt''), (''metadata'', JDict [])]]
   \<and> snd (evaluate_dataset demo_ext demo_args \<lparr>pg_rank = 0, pg_world_size = 2\<rparr> ''pope'') = Inr ()
   \<and> rank_outputs demo_ext demo_args 2 ''pope'' =
        [Inr [demo_pred 1 ''yes'', demo_pred 2 ''no''], Inr [demo_pred 3 ''no'']]
   \<and> json_loads demo_ext (json_dumps demo_ext (JList [demo_pred 1 ''yes'', demo_pred 2 ''no'']))
        = Inr (JList [demo_pred 1 ''yes'', demo_pred 2 ''no''])
   \<and> json_loads demo_ext (json_dumps demo_ext (JList [demo_pred 3 ''no'']))
        = Inr (JList [demo_pred 3 ''no''])
   \<and> merged_outputs demo_ext demo_args 2 ''pope'' =
        Inr [demo_pred 1 ''yes'', demo_pred 2 ''no'', demo_pred 3 ''no'']
   \<and> EWrite ''results/pope_261103120000.json'' ''[1:yes,2:no,3:no]''
        \<in> set (fst (evaluate_dataset demo_ext demo_args \<lparr>pg_rank = 0, pg_world_size = 2\<rparr> ''pope''))
   \<and> getitem demo_ext (demo_dataset\<lparr>ds_prompt := []\<rparr>) 2
       = Inr \<lparr>i_question_id = JInt 3, i_question = ''Is there a car? '',
              i_pixel_values = [''data/pope/val2014/c.jpg''], i_annotation = JNull\<rparr>
   \<and> model_chat demo_ext (a_template demo_args) [''data/pope/val2014/c.jpg'']
         ''Is there a car? ''
         \<lparr>gc_num_beams = 5, gc_max_new_tokens = 100, gc_min_new_tokens = 1,
            gc_length_penalty = 1, gc_do_sample = False, gc_temperature = 0\<rparr> = Inr ''no''
   \<and> demo_pred 3 ''no'' = JDict [(''question_id'', JInt 3), (''text'', JStr ''no''),
                 (''model_id'', JStr (a_checkpoint demo_args)), (''metadata'', JDict [])]"
proof -
  have b: "a_batch_size demo_args = 1" by (simp add: demo_args_def)
  have s: "snd (evaluate_dataset demo_ext demo_args \<lparr>pg_rank = 0, pg_world_size = 2\<rparr> ''pope'') = Inr ()"
    by (simp add: demo_evaluate_dataset)
  from prediction_fields[of demo_ext demo_args "\<lparr>pg_rank = 0, pg_world_size = 2\<rparr>" "''pope''"]
    b s demo_roundtrip demo_merged_outputs
  have "\<exists>merged. merged_outputs demo_ext demo_args 2 ''pope'' = Inr merged
         \<and> EWrite (results_path demo_ext demo_args ''pope'') (json_dumps demo_ext (JList merged))
              \<in> set (fst (evaluate_dataset demo_ext demo_args \<lparr>pg_rank = 0, pg_world_size = 2\<rparr> ''pope''))"
    and "\<exists>c ds gc. ds_lookup ''pope'' = Inr c
           \<and> VQADataset demo_ext (dc_root c) (dc_question c) [] (image_size_of demo_ext)
                (pad2square demo_ext) = Inr ds
           \<and> generation_config_of demo_args ''pope'' = Inr gc
           \<and> length (py_range 0 (dataset_len ds)) = 3"
    by (auto dest: list_all2_lengthD)
  moreover have "EWrite ''results/pope_261103120000.json'' ''[1:yes,2:no,3:no]''
        \<in> set (fst (evaluate_dataset demo_ext demo_args \<lparr>pg_rank = 0, pg_world_size = 2\<rparr> ''pope''))"
    by (simp add: demo_evaluate_dataset)
  moreover have "json_loads demo_ext (json_dumps demo_ext (JList [demo_pred 1 ''yes'', demo_pred 2 ''no'']))
        = Inr (JList [demo_pred 1 ''yes'', demo_pred 2 ''no''])"
    and "json_loads demo_ext (json_dumps demo_ext (JList [demo_pred 3 ''no'']))
        = Inr (JList [demo_pred 3 ''no''])"
    using demo_roundtrip by (simp_all add: demo_rank_outputs)
  moreover have "model_chat demo_ext (a_template demo_args) [''data/pope/val2014/c.jpg'']
         ''Is there a car? ''
         \<lparr>gc_num_beams = 5, gc_max_new_tokens = 100, gc_min_new_tokens = 1,
            gc_length_penalty = 1, gc_do_sample = False, gc_temperature = 0\<rparr> = Inr ''no''"
    by (simp add: demo_ext_def)
  moreover have "demo_pred 3 ''no'' = JDict [(''question_id'', JInt 3), (''text'', JStr ''no''),
                 (''model_id'', JStr (a_checkpoint demo_args)), (''metadata'', JDict [])]"
    by (simp add: demo_pred_def prediction_def demo_args_def)
  ultimately show ?thesis
    using b s demo_local_outputs demo_rank_outputs demo_merged_outputs demo_third_record
    by blast
qed

end
